theory Spec2Isabelle
  imports Complex_Main "HOL-Library.AList"
begin

section \<open>Text\<close>

text \<open>
  A Python \<open>str\<close> is a sequence of Unicode code points, so text is a list of
  natural numbers. ASCII literals are written with \<open>ascii\<close>; everything else
  (Cyrillic, pictographs, quotes, line feeds, the escape character) is written as its
  code points.
\<close>

type_synonym ustring = "nat list"

definition ascii :: "string \<Rightarrow> ustring" where
  "ascii s = map of_char s"

text \<open>
  \<open>str.lower()\<close>,
      one code point at a time. The model covers the scripts this program's
  data, patterns and keywords are written in: Basic Latin, Latin-1 and the Cyrillic
  letters \<open>U+0400..U+042F\<close>. Code points of other scripts are left as they are.
\<close>

definition lower_cp :: "nat \<Rightarrow> nat" where
  "lower_cp c =
     (if 0x41 \<le> c \<and> c \<le> 0x5A then c + 32
      else if 0xC0 \<le> c \<and> c \<le> 0xDE \<and> c \<noteq> 0xD7 then c + 32
      else if 0x400 \<le> c \<and> c \<le> 0x40F then c + 80
      else if 0x410 \<le> c \<and> c \<le> 0x42F then c + 32
      else c)"

definition upper_cp :: "nat \<Rightarrow> nat" where
  "upper_cp c =
     (if 0x61 \<le> c \<and> c \<le> 0x7A then c - 32
      else if 0xE0 \<le> c \<and> c \<le> 0xFE \<and> c \<noteq> 0xF7 then c - 32
      else if 0x450 \<le> c \<and> c \<le> 0x45F then c - 80
      else if 0x430 \<le> c \<and> c \<le> 0x44F then c - 32
      else c)"

definition py_lower :: "ustring \<Rightarrow> ustring" where
  "py_lower s = map lower_cp s"

definition is_cased :: "nat \<Rightarrow> bool" where
  "is_cased c = (lower_cp c \<noteq> c \<or> upper_cp c \<noteq> c)"

text \<open>\<open>str.title()\<close>: a cased character is upper-cased when the character before it is
  not cased, and lower-cased otherwise. The flag is "the previous character is cased".\<close>

fun py_title_from :: "bool \<Rightarrow> ustring \<Rightarrow> ustring" where
  "py_title_from prev [] = []"
| "py_title_from prev (c # cs) =
     (if is_cased c
      then (if prev then lower_cp c else upper_cp c) # py_title_from True cs
      else c # py_title_from False cs)"

definition py_title :: "ustring \<Rightarrow> ustring" where
  "py_title s = py_title_from False s"

text \<open>The characters \<open>str.strip()\<close> removes: those for which \<open>str.isspace()\<close> holds.\<close>

definition py_isspace :: "nat \<Rightarrow> bool" where
  "py_isspace c =
     ((0x09 \<le> c \<and> c \<le> 0x0D) \<or> (0x1C \<le> c \<and> c \<le> 0x20) \<or> c = 0x85 \<or> c = 0xA0
      \<or> c = 0x1680 \<or> (0x2000 \<le> c \<and> c \<le> 0x200A) \<or> c = 0x2028 \<or> c = 0x2029
      \<or> c = 0x202F \<or> c = 0x205F \<or> c = 0x3000)"

definition py_strip :: "ustring \<Rightarrow> ustring" where
  "py_strip s = rev (dropWhile py_isspace (rev (dropWhile py_isspace s)))"

definition py_startswith :: "ustring \<Rightarrow> ustring \<Rightarrow> bool" where
  "py_startswith s p = (take (length p) s = p)"

definition py_endswith :: "ustring \<Rightarrow> ustring \<Rightarrow> bool" where
  "py_endswith s p = (length p \<le> length s \<and> drop (length s - length p) s = p)"

text \<open>\<open>sub in s\<close> for two strings.\<close>

fun py_in :: "ustring \<Rightarrow> ustring \<Rightarrow> bool" where
  "py_in sub [] = (sub = [])"
| "py_in sub (c # cs) = (py_startswith (c # cs) sub \<or> py_in sub cs)"

text \<open>\<open>s.split(sep)\<close> for a separator that is not empty (Python raises on an empty one;
  every separator of this program is a literal). \<open>cur\<close> is the piece being read.\<close>

function py_split_from :: "ustring \<Rightarrow> ustring \<Rightarrow> ustring \<Rightarrow> ustring list" where
  "py_split_from sep cur [] = [cur]"
| "py_split_from sep cur (c # cs) =
     (if sep \<noteq> [] \<and> py_startswith (c # cs) sep
      then cur # py_split_from sep [] (drop (length sep) (c # cs))
      else py_split_from sep (cur @ [c]) cs)"
  by pat_completeness auto
termination
  by (relation "measure (\<lambda>(sep, cur, s). length s)") (auto simp: py_startswith_def)

definition py_split :: "ustring \<Rightarrow> ustring \<Rightarrow> ustring list" where
  "py_split s sep = py_split_from sep [] s"

text \<open>\<open>sep.join(xs)\<close>.\<close>

fun py_join :: "ustring \<Rightarrow> ustring list \<Rightarrow> ustring" where
  "py_join sep [] = []"
| "py_join sep [x] = x"
| "py_join sep (x # y # ys) = x @ sep @ py_join sep (y # ys)"

text \<open>\<open>str(n)\<close> for a number that is not negative.\<close>

fun py_str :: "nat \<Rightarrow> ustring" where
  "py_str n = (if n < 10 then [48 + n] else py_str (n div 10) @ [48 + n mod 10])"

declare py_str.simps [simp del]

text \<open>\<open>xs[:k]\<close> for any integer \<open>k\<close>: a negative \<open>k\<close> counts from the end.\<close>

definition py_slice_to :: "'a list \<Rightarrow> int \<Rightarrow> 'a list" where
  "py_slice_to xs k = (if 0 \<le> k then take (nat k) xs else take (length xs - nat (- k)) xs)"

text \<open>\<open>xs[-k:]\<close> for \<open>k\<close> not negative: the last \<open>k\<close> items, and all of them when
  \<open>k\<close> is 0 (\<open>-0\<close> is \<open>0\<close>).\<close>

definition py_last :: "'a list \<Rightarrow> nat \<Rightarrow> 'a list" where
  "py_last xs k = (if k = 0 then xs else drop (length xs - k) xs)"

subsection \<open>Dictionaries\<close>

text \<open>
  A \<open>dict\<close> keeps its keys in insertion order and the program iterates over them,
      so a
  dictionary is an association list. \<open>d[k] = v\<close> is \<^const>\<open>AList.update\<close>: the value is
  replaced where the key already stands, and a new key goes to the end.
\<close>

type_synonym ('k, 'v) dict = "('k \<times> 'v) list"

definition dict_get :: "('k, 'v) dict \<Rightarrow> 'k \<Rightarrow> 'v \<Rightarrow> 'v" where
  "dict_get d k dflt = (case map_of d k of None \<Rightarrow> dflt | Some v \<Rightarrow> v)"

section \<open>Exceptions\<close>

text \<open>
  The exceptions a turn can meet,
      all of them subclasses of \<open>Exception\<close>. The program
  raises none itself: they come from subscripting and from the libraries it calls.
\<close>

datatype error = LangDetectException | IndexError | KeyError | TypeError | OtherException

text \<open>\<open>try: body except Exception as e: handler\<close>,
    without and with state. A state
  change made before the exception was raised stays made.\<close>

definition try_except :: "error + 'a \<Rightarrow> (error \<Rightarrow> error + 'a) \<Rightarrow> error + 'a" where
  "try_except body handler = (case body of Inl e \<Rightarrow> handler e | Inr v \<Rightarrow> Inr v)"

definition try_except_st ::
  "(error + 'a) \<times> 's \<Rightarrow> (error \<Rightarrow> 's \<Rightarrow> (error + 'a) \<times> 's) \<Rightarrow> (error + 'a) \<times> 's" where
  "try_except_st body handler =
     (case body of (Inl e, s) \<Rightarrow> handler e s | (Inr v, s) \<Rightarrow> (Inr v, s))"

section \<open>Terminal colours\<close>

text \<open>The escape sequences of \<open>colorama\<close>'s \<open>Fore\<close> and \<open>Style\<close>.\<close>

definition Fore_RED :: ustring where "Fore_RED = ([0x1B] @ ascii ''[31m'')"
definition Fore_GREEN :: ustring where "Fore_GREEN = ([0x1B] @ ascii ''[32m'')"
definition Fore_YELLOW :: ustring where "Fore_YELLOW = ([0x1B] @ ascii ''[33m'')"
definition Fore_BLUE :: ustring where "Fore_BLUE = ([0x1B] @ ascii ''[34m'')"
definition Fore_MAGENTA :: ustring where "Fore_MAGENTA = ([0x1B] @ ascii ''[35m'')"
definition Fore_CYAN :: ustring where "Fore_CYAN = ([0x1B] @ ascii ''[36m'')"
definition Style_RESET_ALL :: ustring where "Style_RESET_ALL = ([0x1B] @ ascii ''[0m'')"

section \<open>The libraries and services outside the program\<close>

text \<open>
  What one turn sees of the world outside: the language detector of \<open>langdetect\<close>,
      the
  regular expression engine (\<open>search p s\<close>: the pattern compiled from \<open>p\<close> with
  \<open>IGNORECASE\<close> is found in \<open>s\<close>), the clock,
      the sentence transformer (loading the
  model, encoding texts), \<open>sklearn\<close>'s cosine similarity and the Gemini model
  (\<open>generate_content a p\<close>: the text of the reply to prompt \<open>p\<close> at attempt \<open>a\<close>).
  Each one can raise.
\<close>

record env =
  detect :: "ustring \<Rightarrow> error + ustring"
  search :: "ustring \<Rightarrow> ustring \<Rightarrow> bool"
  now_isoformat :: ustring
  SentenceTransformer :: "ustring \<Rightarrow> error + unit"
  encode :: "ustring list \<Rightarrow> error + real list list"
  cosine_similarity :: "real list list \<Rightarrow> real list list \<Rightarrow> error + real list list"
  generate_content :: "nat \<Rightarrow> ustring \<Rightarrow> error + ustring"

section \<open>Language detection (utils/i18n.py)\<close>

definition bulgarian_chars :: ustring where
  "bulgarian_chars = [0x430, 0x431, 0x432, 0x433, 0x434, 0x435, 0x436, 0x437, 0x438, 0x439,
      0x43A, 0x43B, 0x43C, 0x43D, 0x43E, 0x43F, 0x440, 0x441, 0x442, 0x443, 0x444, 0x445, 0x446,
      0x447, 0x448, 0x449, 0x44A, 0x44C, 0x44E, 0x44F]"

definition bulgarian_words :: "ustring list" where
  "bulgarian_words =
     [[0x437, 0x430, 0x435, 0x43C], [0x43A, 0x440, 0x435, 0x434, 0x438, 0x442], [0x43A, 0x430,
         0x440, 0x442, 0x430], [0x43B, 0x438, 0x445, 0x432, 0x430], [0x431, 0x430, 0x43D, 0x43A,
         0x430], [0x43F, 0x430, 0x440, 0x438], [0x43F, 0x43B, 0x430, 0x449, 0x430, 0x43D,
         0x435],
      [0x438, 0x43F, 0x43E, 0x442, 0x435, 0x43A, 0x430], [0x43F, 0x43E, 0x442, 0x440, 0x435,
          0x431, 0x438, 0x442, 0x435, 0x43B, 0x441, 0x43A, 0x438], [0x43E, 0x432, 0x44A, 0x440,
          0x434, 0x440, 0x430, 0x444, 0x442], [0x444, 0x438, 0x43B, 0x438, 0x430, 0x43B],
          [0x43A, 0x43B, 0x430, 0x43D],
      [0x434, 0x43E, 0x43A, 0x443, 0x43C, 0x435, 0x43D, 0x442, 0x438], [0x437, 0x430, 0x44F,
          0x432, 0x43A, 0x430], [0x43F, 0x440, 0x43E, 0x446, 0x435, 0x441], [0x43E, 0x43D,
          0x43B, 0x430, 0x439, 0x43D], [0x43F, 0x43E, 0x43C, 0x43E, 0x449], [0x438, 0x43D,
          0x444, 0x43E, 0x440, 0x43C, 0x430, 0x446, 0x438, 0x44F]]"

definition detect_language :: "env \<Rightarrow> ustring \<Rightarrow> error + ustring" where
  "detect_language env text =
     (if text = [] \<or> py_strip text = [] then Inr (ascii ''en'')
      else
        let text_lower = py_lower text in
        if list_ex (\<lambda>char. char \<in> set bulgarian_chars) text_lower then Inr (ascii ''bg'')
        else if list_ex (\<lambda>word. py_in word text_lower) bulgarian_words then Inr (ascii ''bg'')
        else
          (case detect env text of
             Inl LangDetectException \<Rightarrow> Inr (ascii ''en'')
           | Inl e \<Rightarrow> Inl e
           | Inr detected \<Rightarrow> Inr (if detected \<in> set [(ascii ''en''),
               (ascii ''bg'')] then detected else (ascii ''en''))))"

section \<open>Conversation context (core/context.py)\<close>

text \<open>One entry of the conversation history,
    as \<open>generate_response\<close> writes it.\<close>

record turn =
  user :: ustring
  timestamp :: ustring
  language :: ustring
  intent :: ustring
  confidence :: real

record conversation_context =
  user_language :: ustring
  current_topic :: "ustring option"
  user_preferences :: "(ustring, ustring) dict"
  conversation_history :: "turn list"
  conversation_memory :: "(ustring, ustring) dict"
  last_products_discussed :: "ustring list"
  user_interests :: "ustring list"

definition get_recent_context :: "conversation_context \<Rightarrow> nat \<Rightarrow> turn list" where
  "get_recent_context c turns =
     (if conversation_history c \<noteq> [] then py_last (conversation_history c) turns else [])"

section \<open>The catalog (core/chatbot.py, \<open>_combine_products\<close>)\<close>

text \<open>
  The attributes of one card or loan, as the JSON files give them: a dictionary from
  attribute names to text. A source dataset maps a category to the products of that
  category, by name.
\<close>

type_synonym attributes = "(ustring, ustring) dict"
type_synonym dataset = "(ustring, (ustring, attributes) dict) dict"

text \<open>The attribute key: "product information", in Bulgarian.\<close>

definition product_information :: ustring where
  "product_information = [0x438, 0x43D, 0x444, 0x43E, 0x440, 0x43C, 0x430, 0x446, 0x438, 0x44F,
      0x20, 0x437, 0x430, 0x20, 0x43F, 0x440, 0x43E, 0x434, 0x443, 0x43A, 0x442, 0x430]"

record product =
  name :: ustring
  type :: ustring
  category :: ustring
  description :: ustring
  raw_data :: attributes

text \<open>\<open>s.replace(c, '')\<close> for a single character \<open>c\<close>.\<close>

definition remove_char :: "nat \<Rightarrow> ustring \<Rightarrow> ustring" where
  "remove_char c s = filter (\<lambda>x. x \<noteq> c) s"

text \<open>The key of a product: the three \<open>replace\<close> calls of the source,
    which remove the
  ASCII double quote \<open>U+0022\<close>, the low double quote \<open>U+201E\<close> and,
      again, \<open>U+0022\<close>.\<close>

definition product_key :: "ustring \<Rightarrow> ustring" where
  "product_key card_name = remove_char 0x22 (remove_char 0x201E (remove_char 0x22 card_name))"

definition combine_products :: "dataset \<Rightarrow> dataset \<Rightarrow> (ustring,
    product) dict" where
  "combine_products credit_cards credits =
     (let combined = [];
          combined =
            fold (\<lambda>(card_type, cards) combined.
              fold (\<lambda>(card_name, card_info) combined.
                let key = product_key card_name in
                AList.update key
                  \<lparr>name = card_name, type = (ascii ''credit_card''),
                      category = card_type,
                   description = dict_get card_info product_information [],
                   raw_data = card_info\<rparr> combined)
                cards combined)
              credit_cards combined;
          combined =
            fold (\<lambda>(credit_category, credit_types) combined.
              fold (\<lambda>(credit_name, credit_info) combined.
                let key = product_key credit_name in
                AList.update key
                  \<lparr>name = credit_name, type = (ascii ''credit''),
                      category = credit_category,
                   description = dict_get credit_info product_information [],
                   raw_data = credit_info\<rparr> combined)
                credit_types combined)
              credits combined
      in combined)"

record knowledge =
  products :: "(ustring, product) dict"
  credit_cards :: dataset
  credits :: dataset

section \<open>Rendering (services/rendering_service.py)\<close>

subsection \<open>Summaries\<close>

text \<open>The loop of \<open>get_credit_card_summary\<close> over the pieces between semicolons.\<close>

fun credit_card_key_info :: "ustring list \<Rightarrow> ustring list \<Rightarrow> ustring list" where
  "credit_card_key_info [] key_info = key_info"
| "credit_card_key_info (line # lines) key_info =
     (let line = py_strip line in
      if list_ex (\<lambda>keyword. py_in keyword (py_lower line))
           [[0x43B, 0x438, 0x43C, 0x438, 0x442, 0x3A], [0x433, 0x43E, 0x434, 0x438, 0x448,
               0x43D, 0x430, 0x20, 0x442, 0x430, 0x43A, 0x441, 0x430, 0x3A],
               (ascii ''cashback:'')]
      then credit_card_key_info lines (key_info @ [line])
      else credit_card_key_info lines key_info)"

definition get_credit_card_summary :: "attributes \<Rightarrow> error + ustring" where
  "get_credit_card_summary card_info =
     try_except
       (let info = dict_get card_info product_information [] in
        if info = [] then Inr []
        else
          let lines = py_split info [0x3B];
              key_info = credit_card_key_info lines []
          in Inr (py_join ([0xA] @ ascii ''   '') (py_slice_to key_info 3)))
       (\<lambda>e. Inr [])"

text \<open>The loop of \<open>get_loan_summary\<close> over the lines it is given.\<close>

fun loan_key_info :: "ustring list \<Rightarrow> ustring list \<Rightarrow> ustring list" where
  "loan_key_info [] key_info = key_info"
| "loan_key_info (line # lines) key_info =
     (let line = py_strip line in
      if line \<noteq> [] \<and> \<not> py_startswith line [0x2D]
      then loan_key_info lines (key_info @ [line])
      else loan_key_info lines key_info)"

definition get_loan_summary :: "attributes \<Rightarrow> error + ustring" where
  "get_loan_summary loan_info =
     try_except
       (let info = dict_get loan_info product_information [] in
        if info = [] then Inr []
        else
          let lines = py_split info [0xA];
              key_info = loan_key_info (py_slice_to lines 2) []
          in Inr (py_join ([0xA] @ ascii ''   '') key_info))
       (\<lambda>e. Inr [])"

subsection \<open>Lists, single products, categories\<close>

text \<open>One pass of the loop of \<open>render_product_list\<close>: the name,
    the summary when the
  extractor gives one (an extractor that raises is skipped), the link.\<close>

definition render_product_item ::
  "(attributes \<Rightarrow> error + ustring) \<Rightarrow> ustring \<Rightarrow> ustring \<Rightarrow> ustring \<times> attributes \<Rightarrow> ustring
     \<Rightarrow> ustring" where
  "render_product_item summary_fn link_label lang item response =
     (case item of (product_name, info) \<Rightarrow>
        let response = response @ ([0x1F539] @ ascii '' **'') @ product_name @ (ascii ''**''
            @ [0xA]);
            response =
              (case summary_fn info of
                 Inr summary \<Rightarrow> if summary \<noteq> [] then response
                     @ (ascii ''   '') @ summary @ [0xA] else response
               | Inl e \<Rightarrow> response);
            link = dict_get info (ascii ''link'') []
        in
          if link \<noteq> [] then
            (if lang = (ascii ''bg'') then response @ (ascii ''   '' @ [0x1F517, 0x20])
                @ link_label @ (ascii '': '') @ link @ [0xA, 0xA]
             else response @ (ascii ''   '' @ [0x1F517, 0x20]) @ link_label @ (ascii '': '')
                 @ link @ [0xA, 0xA])
          else response @ [0xA])"

definition render_product_list ::
  "ustring \<Rightarrow> (ustring,
      attributes) dict \<Rightarrow> (attributes \<Rightarrow> error + ustring) \<Rightarrow> ustring \<Rightarrow> ustring
     \<Rightarrow> error + ustring" where
  "render_product_list header items summary_fn link_label lang =
     try_except
       (let response = Fore_BLUE @ [0x1F4B3, 0x20] @ header @ Style_RESET_ALL @ [0xA, 0xA] in
        if items = [] then
          (if lang = (ascii ''bg'')
           then Inr (response @ Fore_YELLOW @ [0x41D, 0x44F, 0x43C, 0x430, 0x20, 0x43D, 0x430,
               0x43B, 0x438, 0x447, 0x43D, 0x438, 0x20, 0x43F, 0x440, 0x43E, 0x434, 0x443,
               0x43A, 0x442, 0x438, 0x20, 0x432, 0x20, 0x442, 0x430, 0x437, 0x438, 0x20, 0x43A,
               0x430, 0x442, 0x435, 0x433, 0x43E, 0x440, 0x438, 0x44F, 0x2E] @ Style_RESET_ALL)
           else Inr (response @ Fore_YELLOW
               @ (ascii ''No products available in this category.'') @ Style_RESET_ALL))
        else
          let response = fold (render_product_item summary_fn link_label lang) items response in
          if lang = (ascii ''bg'')
          then Inr (response @ Fore_YELLOW
                 @ ([0x417, 0x430, 0x20, 0x43F, 0x43E, 0x432, 0x435, 0x447, 0x435, 0x20, 0x434,
                     0x435, 0x442, 0x430, 0x439, 0x43B, 0x438, 0x20, 0x437, 0x430, 0x20, 0x43A,
                     0x43E, 0x43D, 0x43A, 0x440, 0x435, 0x442, 0x435, 0x43D, 0x20, 0x43F, 0x440,
                     0x43E, 0x434, 0x443, 0x43A, 0x442] @ ascii '', '' @ [0x43F, 0x440, 0x43E,
                     0x441, 0x442, 0x43E, 0x20, 0x433, 0x43E, 0x20, 0x441, 0x43F, 0x43E, 0x43C,
                     0x435, 0x43D, 0x435, 0x442, 0x435, 0x20, 0x43F, 0x43E, 0x20, 0x438, 0x43C,
                     0x435, 0x2E])
                 @ Style_RESET_ALL)
          else Inr (response @ Fore_YELLOW
                 @ (ascii ''For more details about a specific product, just mention it by name.'')
                 @ Style_RESET_ALL))
       (\<lambda>e.
          if lang = (ascii ''bg'')
          then Inr (Fore_RED @ ([0x421, 0x44A, 0x436, 0x430, 0x43B, 0x44F, 0x432, 0x430, 0x43C]
              @ ascii '', '' @ [0x432, 0x44A, 0x437, 0x43D, 0x438, 0x43A, 0x43D, 0x430, 0x20,
              0x433, 0x440, 0x435, 0x448, 0x43A, 0x430, 0x20, 0x43F, 0x440, 0x438, 0x20, 0x43F,
              0x43E, 0x43A, 0x430, 0x437, 0x432, 0x430, 0x43D, 0x435, 0x442, 0x43E, 0x20, 0x43D,
              0x430, 0x20, 0x43F, 0x440, 0x43E, 0x434, 0x443, 0x43A, 0x442, 0x438, 0x442, 0x435,
              0x2E]) @ Style_RESET_ALL)
          else Inr (Fore_RED
              @ (ascii ''Sorry, an error occurred while displaying the products.'')
              @ Style_RESET_ALL))"

text \<open>The loop of \<open>render_specific_product\<close> over \<open>enumerate(sections)\<close>, from index
  \<open>i\<close> on.\<close>

fun render_sections :: "ustring \<Rightarrow> nat \<Rightarrow> ustring list \<Rightarrow> ustring \<Rightarrow> ustring" where
  "render_sections lang i [] response = response"
| "render_sections lang i (section # sections) response =
     render_sections lang (i + 1) sections
       (if i = 0 then
          (if lang = (ascii ''bg'')
           then response @ (ascii ''**'' @ [0x41E, 0x441, 0x43D, 0x43E, 0x432, 0x43D, 0x438,
               0x20, 0x43F, 0x440, 0x435, 0x434, 0x438, 0x43C, 0x441, 0x442, 0x432, 0x430]
               @ ascii '':**'' @ [0xA]) @ py_strip section @ [0xA, 0xA]
           else response @ (ascii ''**Key Benefits:**'' @ [0xA]) @ py_strip section @ [0xA,
               0xA])
        else
          (if lang = (ascii ''bg'')
           then response @ (ascii ''**'' @ [0x422, 0x435, 0x445, 0x43D, 0x438, 0x447, 0x435,
               0x441, 0x43A, 0x438, 0x20, 0x434, 0x435, 0x442, 0x430, 0x439, 0x43B, 0x438]
               @ ascii '':**'' @ [0xA] @ ascii ''- '') @ py_strip section @ [0xA, 0xA]
           else response @ (ascii ''**Technical Details:**'' @ [0xA] @ ascii ''- '')
               @ py_strip section @ [0xA, 0xA]))"

definition render_specific_product :: "ustring \<Rightarrow> attributes \<Rightarrow> ustring \<Rightarrow> error + ustring" where
  "render_specific_product product_name product_data lang =
     try_except
       (let response =
              (if lang = (ascii ''bg'')
               then Fore_BLUE @ [0x1F4B3, 0x20, 0x418, 0x43D, 0x444, 0x43E, 0x440, 0x43C, 0x430,
                   0x446, 0x438, 0x44F, 0x20, 0x437, 0x430, 0x20] @ product_name @ [0x3A]
                   @ Style_RESET_ALL @ [0xA, 0xA]
               else Fore_BLUE @ ([0x1F4B3] @ ascii '' Information about '') @ product_name
                   @ [0x3A] @ Style_RESET_ALL @ [0xA, 0xA]);
            info = dict_get product_data product_information [];
            response =
              (if info \<noteq> [] then render_sections lang 0 (py_split info ([0xA]
                  @ ascii ''- '')) response
               else response);
            link = dict_get product_data (ascii ''link'') [];
            response =
              (if link \<noteq> [] then
                 (if lang = (ascii ''bg'')
                  then response @ Fore_GREEN @ ([0x1F517, 0x20, 0x417, 0x430, 0x20, 0x43F,
                      0x43E, 0x432, 0x435, 0x447, 0x435, 0x20, 0x438, 0x43D, 0x444, 0x43E,
                      0x440, 0x43C, 0x430, 0x446, 0x438, 0x44F] @ ascii '': '') @ link
                      @ Style_RESET_ALL @ [0xA, 0xA]
                  else response @ Fore_GREEN @ ([0x1F517] @ ascii '' For more information: '')
                      @ link @ Style_RESET_ALL @ [0xA, 0xA])
               else response)
        in
          if lang = (ascii ''bg'')
          then Inr (response @ Fore_YELLOW
                 @ [0x1F4A1, 0x20, 0x41C, 0x43E, 0x436, 0x435, 0x442, 0x435, 0x20, 0x434, 0x430,
                     0x20, 0x43F, 0x43E, 0x43F, 0x438, 0x442, 0x430, 0x442, 0x435, 0x20, 0x437,
                     0x430, 0x20, 0x434, 0x440, 0x443, 0x433, 0x438, 0x20, 0x43F, 0x440, 0x43E,
                     0x434, 0x443, 0x43A, 0x442, 0x438, 0x20, 0x438, 0x43B, 0x438, 0x20, 0x434,
                     0x430, 0x20, 0x441, 0x440, 0x430, 0x432, 0x43D, 0x438, 0x442, 0x435, 0x20,
                     0x441, 0x20, 0x434, 0x440, 0x443, 0x433, 0x20, 0x43F, 0x440, 0x43E, 0x434,
                     0x443, 0x43A, 0x442, 0x2E]
                 @ Style_RESET_ALL)
          else Inr (response @ Fore_YELLOW
                 @ ([0x1F4A1]
                     @ ascii '' You can ask about other products or compare with another product.'')
                 @ Style_RESET_ALL))
       (\<lambda>e.
          if lang = (ascii ''bg'')
          then Inr (Fore_RED @ ([0x421, 0x44A, 0x436, 0x430, 0x43B, 0x44F, 0x432, 0x430, 0x43C]
              @ ascii '', '' @ [0x432, 0x44A, 0x437, 0x43D, 0x438, 0x43A, 0x43D, 0x430, 0x20,
              0x433, 0x440, 0x435, 0x448, 0x43A, 0x430, 0x20, 0x43F, 0x440, 0x438, 0x20, 0x43F,
              0x43E, 0x43A, 0x430, 0x437, 0x432, 0x430, 0x43D, 0x435, 0x442, 0x43E, 0x20, 0x43D,
              0x430, 0x20, 0x438, 0x43D, 0x444, 0x43E, 0x440, 0x43C, 0x430, 0x446, 0x438, 0x44F,
              0x442, 0x430, 0x20, 0x437, 0x430, 0x20, 0x43F, 0x440, 0x43E, 0x434, 0x443, 0x43A,
              0x442, 0x430, 0x2E])
                 @ Style_RESET_ALL)
          else Inr (Fore_RED
              @ (ascii ''Sorry, an error occurred while showing the product information.'')
                 @ Style_RESET_ALL))"

text \<open>One pass of the loop of \<open>render_category_overview\<close>.\<close>

definition render_category ::
  "ustring \<Rightarrow> ustring \<times> (ustring,
      attributes) dict \<Rightarrow> ustring \<Rightarrow> ustring" where
  "render_category lang entry response =
     (case entry of (category_name, category_products) \<Rightarrow>
        let response = response @ ([0x1F539] @ ascii '' **'') @ category_name @ (ascii ''** ('')
            @ py_str (length category_products) @ [0x20];
            response = (if lang = (ascii ''bg'') then response @ [0x43F, 0x440, 0x43E, 0x434,
                0x443, 0x43A, 0x442, 0x430, 0x29, 0xA] else response @ (ascii ''products)''
                @ [0xA]));
            product_names = py_slice_to (map fst category_products) 3;
            response = fold (\<lambda>product_name response. response @ (ascii ''   ''
                @ [0x2022, 0x20]) @ product_name @ [0xA]) product_names response;
            response =
              (if length category_products > 3 then
                 (if lang = (ascii ''bg'')
                  then response @ (ascii ''   '' @ [0x2022, 0x20, 0x438, 0x20, 0x43E, 0x449,
                      0x435, 0x20]) @ py_str (length category_products - 3) @ ([0x20, 0x43F,
                      0x440, 0x43E, 0x434, 0x443, 0x43A, 0x442, 0x430] @ ascii ''...'' @ [0xA])
                  else response @ (ascii ''   '' @ [0x2022] @ ascii '' and '')
                      @ py_str (length category_products - 3) @ (ascii '' more products...''
                      @ [0xA]))
               else response)
        in response @ [0xA])"

definition render_category_overview :: "dataset \<Rightarrow> ustring \<Rightarrow> error + ustring" where
  "render_category_overview categories lang =
     try_except
       (let response =
              (if lang = (ascii ''bg'')
               then Fore_BLUE @ [0x1F4B0, 0x20, 0x41F, 0x440, 0x435, 0x434, 0x43B, 0x430, 0x433,
                   0x430, 0x43C, 0x435, 0x20, 0x43F, 0x440, 0x43E, 0x434, 0x443, 0x43A, 0x442,
                   0x438, 0x20, 0x432, 0x20, 0x441, 0x43B, 0x435, 0x434, 0x43D, 0x438, 0x442,
                   0x435, 0x20, 0x43A, 0x430, 0x442, 0x435, 0x433, 0x43E, 0x440, 0x438, 0x438,
                   0x3A] @ Style_RESET_ALL @ [0xA, 0xA]
               else Fore_BLUE @ ([0x1F4B0]
                   @ ascii '' We offer products in the following categories:'')
                   @ Style_RESET_ALL @ [0xA, 0xA])
        in Inr (fold (render_category lang) categories response))
       (\<lambda>e.
          if lang = (ascii ''bg'')
          then Inr (Fore_RED @ ([0x421, 0x44A, 0x436, 0x430, 0x43B, 0x44F, 0x432, 0x430, 0x43C]
              @ ascii '', '' @ [0x432, 0x44A, 0x437, 0x43D, 0x438, 0x43A, 0x43D, 0x430, 0x20,
              0x433, 0x440, 0x435, 0x448, 0x43A, 0x430, 0x20, 0x43F, 0x440, 0x438, 0x20, 0x43F,
              0x43E, 0x43A, 0x430, 0x437, 0x432, 0x430, 0x43D, 0x435, 0x442, 0x43E, 0x20, 0x43D,
              0x430, 0x20, 0x43A, 0x430, 0x442, 0x435, 0x433, 0x43E, 0x440, 0x438, 0x438, 0x442,
              0x435, 0x2E]) @ Style_RESET_ALL)
          else Inr (Fore_RED
              @ (ascii ''Sorry, an error occurred while displaying the categories.'')
              @ Style_RESET_ALL))"

section \<open>Semantic search (services/semantic_service.py)\<close>

text \<open>
  The state of the service: the model once it is loaded, the embeddings once they are
  built (a matrix, one row per product text), the texts and keys they were built from,
  and the knowledge base. The knowledge base is the object the chatbot holds; neither side
  writes to it, so the alias is modelled by a copy.
\<close>

type_synonym matrix = "real list list"

record semantic =
  model_name :: ustring
  s_model :: "unit option"
  s_embeddings :: "matrix option"
  s_product_texts :: "ustring list"
  s_product_keys :: "ustring list"
  s_knowledge_base :: "knowledge option"

text \<open>\<open>SemanticService(model_name)\<close>.\<close>

definition semantic_init :: "ustring \<Rightarrow> semantic" where
  "semantic_init mname =
     \<lparr>model_name = mname, s_model = None, s_embeddings = None, s_product_texts = [],
      s_product_keys = [], s_knowledge_base = None\<rparr>"

text \<open>The property \<open>model\<close>: the transformer is loaded at the first use.\<close>

definition model :: "env \<Rightarrow> semantic \<Rightarrow> (error + unit) \<times> semantic" where
  "model env s =
     (case s_model s of
        None \<Rightarrow>
          try_except_st
            (case SentenceTransformer env (model_name s) of
               Inl e \<Rightarrow> (Inl e, s)
             | Inr m \<Rightarrow> (Inr m, s\<lparr>s_model := Some m\<rparr>))
            (\<lambda>e s. (Inl e, s))
      | Some m \<Rightarrow> (Inr m, s))"

definition set_knowledge_base :: "semantic \<Rightarrow> knowledge \<Rightarrow> semantic" where
  "set_knowledge_base s kb =
     s\<lparr>s_knowledge_base := Some kb, s_embeddings := None, s_product_texts := [],
       s_product_keys := []\<rparr>"

text \<open>The text of one product. The attribute values are text,
    so \<open>features\<close> and
  \<open>benefits\<close> take the branch that is not for lists.\<close>

definition product_text :: "product \<Rightarrow> ustring" where
  "product_text p =
     (let text = name p @ [0x20] @ description p;
          raw = raw_data p;
          text = (case map_of raw product_information of
                    Some v \<Rightarrow> text @ [0x20] @ v | None \<Rightarrow> text);
          text = (case map_of raw (ascii ''features'') of Some v \<Rightarrow> text @ [0x20]
              @ v | None \<Rightarrow> text);
          text = (case map_of raw (ascii ''benefits'') of Some v \<Rightarrow> text @ [0x20]
              @ v | None \<Rightarrow> text)
      in text)"

definition prepare_product_texts :: "semantic \<Rightarrow> semantic" where
  "prepare_product_texts s =
     (if s_product_texts s \<noteq> [] then s
      else
        (case s_knowledge_base s of
           None \<Rightarrow> s
         | Some kb \<Rightarrow>
             let prods = products kb in
             if prods = [] then s
             else
               fold (\<lambda>(key, p) s.
                       s\<lparr>s_product_texts := s_product_texts s @ [product_text p],
                         s_product_keys := s_product_keys s @ [key]\<rparr>)
                 prods s))"

text \<open>\<open>np.array([])\<close> is the matrix without rows.\<close>

definition build_embeddings :: "env \<Rightarrow> semantic \<Rightarrow> (error + matrix) \<times> semantic" where
  "build_embeddings env s =
     (case s_embeddings s of
        Some embeddings \<Rightarrow> (Inr embeddings, s)
      | None \<Rightarrow>
          let s = prepare_product_texts s in
          if s_product_texts s = [] then (Inr [], s)
          else
            try_except_st
              (case model env s of
                 (Inl e, s) \<Rightarrow> (Inl e, s)
               | (Inr m, s) \<Rightarrow>
                   (case encode env (s_product_texts s) of
                      Inl e \<Rightarrow> (Inl e, s)
                    | Inr embeddings \<Rightarrow> (Inr embeddings,
                        s\<lparr>s_embeddings := Some embeddings\<rparr>)))
              (\<lambda>e s. (Inr [], s)))"

text \<open>\<open>embeddings.size\<close>: the number of entries.\<close>

definition size_of :: "matrix \<Rightarrow> nat" where
  "size_of m = length (concat m)"

text \<open>\<open>np.argsort\<close>: the indices in ascending order of their values. Which of two equal
  values comes first is left open by \<open>numpy\<close>; here it is the one with the smaller index.\<close>

definition argsort :: "real list \<Rightarrow> nat list" where
  "argsort xs = sort_key (\<lambda>i. xs ! i) [0..<length xs]"

text \<open>The loop of \<open>find_similar_products\<close> over \<open>top_indices\<close>. A subscript outside the
  array raises \<open>IndexError\<close>, a missing key \<open>KeyError\<close>,
      a subscript of \<open>None\<close>
  \<open>TypeError\<close>.\<close>

fun similar_results ::
  "semantic \<Rightarrow> real list \<Rightarrow> real \<Rightarrow> nat list \<Rightarrow> (ustring \<times> product \<times> real) list
     \<Rightarrow> error + (ustring \<times> product \<times> real) list" where
  "similar_results s similarities threshold [] results = Inr results"
| "similar_results s similarities threshold (idx # top_indices) results =
     (if \<not> idx < length similarities then Inl IndexError
      else
        let similarity = similarities ! idx in
        if similarity > threshold then
          (if \<not> idx < length (s_product_keys s) then Inl IndexError
           else
             let product_key = s_product_keys s ! idx in
             (case s_knowledge_base s of
                None \<Rightarrow> Inl TypeError
              | Some kb \<Rightarrow>
                  (case map_of (products kb) product_key of
                     None \<Rightarrow> Inl KeyError
                   | Some product_data \<Rightarrow>
                       similar_results s similarities threshold top_indices
                         (results @ [(product_key, product_data, similarity)]))))
        else similar_results s similarities threshold top_indices results)"

definition find_similar_products ::
  "env \<Rightarrow> semantic \<Rightarrow> ustring \<Rightarrow> int \<Rightarrow> real
     \<Rightarrow> (error + (ustring \<times> product \<times> real) list) \<times> semantic" where
  "find_similar_products env s query top_k threshold =
     try_except_st
       (case build_embeddings env s of
          (Inl e, s) \<Rightarrow> (Inl e, s)
        | (Inr embeddings, s) \<Rightarrow>
            if size_of embeddings = 0 then (Inr [], s)
            else
              (case model env s of
                 (Inl e, s) \<Rightarrow> (Inl e, s)
               | (Inr m, s) \<Rightarrow>
                   (case encode env [query] of
                      Inl e \<Rightarrow> (Inl e, s)
                    | Inr query_embedding \<Rightarrow>
                        (case cosine_similarity env query_embedding embeddings of
                           Inl e \<Rightarrow> (Inl e, s)
                         | Inr [] \<Rightarrow> (Inl IndexError, s)
                         | Inr (similarities # rows) \<Rightarrow>
                             let top_indices = py_slice_to (rev (argsort similarities)) top_k
                             in (similar_results s similarities threshold top_indices [], s)))))
       (\<lambda>e s. (Inr [], s))"

section \<open>The Gemini service (services/gemini_service.py)\<close>

record gemini =
  gemini_model_name :: ustring
  gemini_model :: "unit option"
  is_available :: bool

definition create_structured_prompt ::
  "ustring \<Rightarrow> ustring \<Rightarrow> (ustring \<times> product \<times> real) list \<Rightarrow> turn list \<Rightarrow> ustring" where
  "create_structured_prompt user_input lang relevant_products recent_context =
     (let system_prompt =
            (if lang = (ascii ''bg'') then ([0x422, 0x438, 0x20, 0x441, 0x438] @ ascii '' AI ''
                @ [0x430, 0x441, 0x438, 0x441, 0x442, 0x435, 0x43D, 0x442, 0x20, 0x43D, 0x430,
                0x20, 0x41F, 0x44A, 0x440, 0x432, 0x430, 0x20, 0x438, 0x43D, 0x432, 0x435,
                0x441, 0x442, 0x438, 0x446, 0x438, 0x43E, 0x43D, 0x43D, 0x430, 0x20, 0x431,
                0x430, 0x43D, 0x43A, 0x430, 0x20, 0x410, 0x414] @ ascii '' (Fibank). '' @ [0xA]
                @ ascii ''            '' @ [0x41E, 0x442, 0x433, 0x43E, 0x432, 0x430, 0x440,
                0x44F, 0x439, 0x20, 0x43D, 0x430, 0x20, 0x432, 0x44A, 0x43F, 0x440, 0x43E,
                0x441, 0x438, 0x442, 0x435, 0x20, 0x43D, 0x430, 0x20, 0x43A, 0x43B, 0x438,
                0x435, 0x43D, 0x442, 0x438, 0x442, 0x435, 0x20, 0x43E, 0x442, 0x43D, 0x43E,
                0x441, 0x43D, 0x43E, 0x20, 0x43A, 0x440, 0x435, 0x434, 0x438, 0x442, 0x43D,
                0x438, 0x20, 0x43A, 0x430, 0x440, 0x442, 0x438, 0x20, 0x438, 0x20, 0x43A, 0x440,
                0x435, 0x434, 0x438, 0x442, 0x438, 0x2E, 0xA] @ ascii ''            '' @ [0x411,
                0x44A, 0x434, 0x438, 0x20, 0x43F, 0x440, 0x43E, 0x444, 0x435, 0x441, 0x438,
                0x43E, 0x43D, 0x430, 0x43B, 0x435, 0x43D] @ ascii '', '' @ [0x43F, 0x43E, 0x43B,
                0x435, 0x437, 0x435, 0x43D, 0x20, 0x438, 0x20, 0x43F, 0x440, 0x438, 0x432,
                0x435, 0x442, 0x43B, 0x438, 0x432] @ ascii ''. '' @ [0x418, 0x437, 0x43F, 0x43E,
                0x43B, 0x437, 0x432, 0x430, 0x439, 0x20, 0x438, 0x43D, 0x444, 0x43E, 0x440,
                0x43C, 0x430, 0x446, 0x438, 0x44F, 0x442, 0x430, 0x20, 0x437, 0x430, 0x20,
                0x43F, 0x440, 0x43E, 0x434, 0x443, 0x43A, 0x442, 0x438, 0x442, 0x435]
                @ ascii '', '' @ [0x43A, 0x43E, 0x44F, 0x442, 0x43E, 0x20, 0x442, 0x438, 0x20,
                0x435, 0x20, 0x43F, 0x440, 0x435, 0x434, 0x43E, 0x441, 0x442, 0x430, 0x432,
                0x435, 0x43D, 0x430, 0x2E, 0xA] @ ascii ''            '' @ [0x412, 0x438, 0x43D,
                0x430, 0x433, 0x438, 0x20, 0x43F, 0x440, 0x435, 0x434, 0x43E, 0x441, 0x442,
                0x430, 0x432, 0x44F, 0x439, 0x20, 0x442, 0x43E, 0x447, 0x43D, 0x430, 0x20,
                0x438, 0x43D, 0x444, 0x43E, 0x440, 0x43C, 0x430, 0x446, 0x438, 0x44F, 0x20,
                0x438, 0x20, 0x43D, 0x430, 0x441, 0x44A, 0x440, 0x447, 0x430, 0x432, 0x430,
                0x439, 0x20, 0x43A, 0x43B, 0x438, 0x435, 0x43D, 0x442, 0x438, 0x442, 0x435,
                0x20, 0x434, 0x430, 0x20, 0x441, 0x435, 0x20, 0x441, 0x432, 0x44A, 0x440, 0x436,
                0x430, 0x442, 0x20, 0x441, 0x20, 0x431, 0x430, 0x43D, 0x43A, 0x430, 0x442,
                0x430, 0x20, 0x437, 0x430, 0x20, 0x43F, 0x43E, 0x432, 0x435, 0x447, 0x435, 0x20,
                0x434, 0x435, 0x442, 0x430, 0x439, 0x43B, 0x438, 0x2E])
             else (ascii ''You are an AI assistant for First Investment Bank AD (Fibank).''
                 @ [0xA]
                 @ ascii ''            Answer customer questions about credit cards and loans.''
                 @ [0xA]
                 @ ascii ''            Be professional, helpful, and friendly. Use the product information provided to you.'' @ [0xA] @ ascii ''            Always provide accurate information and encourage customers to contact the bank for more details.''));
          context_text =
            (if recent_context \<noteq> [] then
               fold (\<lambda>t context_text.
                       let user_msg = user t in
                       if user_msg \<noteq> [] then context_text @ (ascii ''User: '') @ user_msg
                           @ [0xA]
                       else context_text)
                 (py_last recent_context 3) ([0xA] @ ascii ''Recent conversation:'' @ [0xA])
             else []);
          products_text =
            (if relevant_products \<noteq> [] then
               fold (\<lambda>(key, p, score) products_text.
                       products_text @ (ascii ''- '') @ name p @ (ascii '': '')
                           @ py_slice_to (description p) 200
                         @ (ascii ''...'' @ [0xA]))
                 (py_slice_to relevant_products 3)
                 (if lang = (ascii ''bg'') then ([0xA, 0x420, 0x435, 0x43B, 0x435, 0x432, 0x430,
                     0x43D, 0x442, 0x43D, 0x438, 0x20, 0x43F, 0x440, 0x43E, 0x434, 0x443, 0x43A,
                     0x442, 0x438, 0x20, 0x43D, 0x430] @ ascii '' Fibank:'' @ [0xA])
                  else ([0xA] @ ascii ''Relevant Fibank products:'' @ [0xA]))
             else []);
          guidelines =
            (if lang = (ascii ''bg'') then ([0xA] @ ascii ''            '' @ [0xA, 0x423, 0x43A,
                0x430, 0x437, 0x430, 0x43D, 0x438, 0x44F, 0x3A, 0xA] @ ascii ''- '' @ [0x41E,
                0x442, 0x433, 0x43E, 0x432, 0x43E, 0x440, 0x438, 0x20, 0x434, 0x438, 0x440,
                0x435, 0x43A, 0x442, 0x43D, 0x43E, 0x20, 0x43D, 0x430, 0x20, 0x432, 0x44A,
                0x43F, 0x440, 0x43E, 0x441, 0x430, 0x20, 0x43D, 0x430, 0x20, 0x43A, 0x43B,
                0x438, 0x435, 0x43D, 0x442, 0x430, 0xA] @ ascii ''- '' @ [0x410, 0x43A, 0x43E,
                0x20, 0x43F, 0x438, 0x442, 0x430, 0x43D, 0x435, 0x442, 0x43E, 0x20, 0x435, 0x20,
                0x437, 0x430, 0x20, 0x43A, 0x43E, 0x43D, 0x43A, 0x440, 0x435, 0x442, 0x435,
                0x43D, 0x20, 0x43F, 0x440, 0x43E, 0x434, 0x443, 0x43A, 0x442] @ ascii '', ''
                @ [0x43F, 0x440, 0x435, 0x434, 0x43E, 0x441, 0x442, 0x430, 0x432, 0x438, 0x20,
                0x43F, 0x43E, 0x434, 0x440, 0x43E, 0x431, 0x43D, 0x430, 0x20, 0x438, 0x43D,
                0x444, 0x43E, 0x440, 0x43C, 0x430, 0x446, 0x438, 0x44F, 0xA] @ ascii ''- ''
                @ [0x410, 0x43A, 0x43E, 0x20, 0x43D, 0x435, 0x20, 0x437, 0x43D, 0x430, 0x435,
                0x448, 0x20, 0x442, 0x43E, 0x447, 0x435, 0x43D, 0x20, 0x43E, 0x442, 0x433,
                0x43E, 0x432, 0x43E, 0x440] @ ascii '', '' @ [0x43F, 0x440, 0x435, 0x43F, 0x43E,
                0x440, 0x44A, 0x447, 0x430, 0x439, 0x20, 0x434, 0x430, 0x20, 0x441, 0x435, 0x20,
                0x441, 0x432, 0x44A, 0x440, 0x436, 0x430, 0x442, 0x20, 0x441, 0x20, 0x431,
                0x430, 0x43D, 0x43A, 0x430, 0x442, 0x430, 0xA] @ ascii ''- '' @ [0x412, 0x438,
                0x43D, 0x430, 0x433, 0x438, 0x20, 0x437, 0x430, 0x432, 0x44A, 0x440, 0x448,
                0x432, 0x430, 0x439, 0x20, 0x441, 0x20, 0x438, 0x43D, 0x444, 0x43E, 0x440,
                0x43C, 0x430, 0x446, 0x438, 0x44F, 0x20, 0x437, 0x430, 0x20, 0x43A, 0x43E,
                0x43D, 0x442, 0x430, 0x43A, 0x442] @ ascii '': *2265 '' @ [0x438, 0x43B, 0x438]
                @ ascii '' 119 '' @ [0x43A, 0x43B, 0x43E, 0x43D, 0x430, 0x20, 0x432, 0x20,
                0x411, 0x44A, 0x43B, 0x433, 0x430, 0x440, 0x438, 0x44F, 0xA] @ ascii ''- ''
                @ [0x411, 0x44A, 0x434, 0x438, 0x20, 0x43A, 0x440, 0x430, 0x442, 0x44A, 0x43A,
                0x20, 0x438, 0x20, 0x44F, 0x441, 0x435, 0x43D, 0x20, 0x432, 0x20, 0x43E, 0x442,
                0x433, 0x43E, 0x432, 0x43E, 0x440, 0x438, 0x442, 0x435, 0x20, 0x441, 0x438])
             else ([0xA] @ ascii ''            '' @ [0xA] @ ascii ''Guidelines:'' @ [0xA]
                 @ ascii ''- Answer the customer'' @ [0x27] @ ascii ''s question directly''
                 @ [0xA]
                 @ ascii ''- If asking about a specific product, provide detailed information''
                 @ [0xA] @ ascii ''- If you don'' @ [0x27]
                 @ ascii ''t know the exact answer, recommend contacting the bank'' @ [0xA]
                 @ ascii ''- Always end with contact information: *2265 or 119 branches in Bulgaria'' @ [0xA] @ ascii ''- Keep responses concise and clear''))
      in system_prompt @ ([0xA] @ ascii ''        '' @ [0xA]) @ context_text @ [0xA]
          @ products_text @ [0xA]
           @ guidelines @ ([0xA, 0xA] @ ascii ''User question: '') @ user_input @ ([0xA, 0xA]
               @ ascii ''Response:''))"

text \<open>The attempts of \<open>generate_response\<close>: a reply with text ends them; a reply
  without text or an exception goes on to the next one, and an exception at the last
  attempt returns \<open>None\<close>.\<close>

fun gemini_attempts :: "env \<Rightarrow> ustring \<Rightarrow> nat \<Rightarrow> nat list \<Rightarrow> ustring option" where
  "gemini_attempts env prompt max_retries [] = None"
| "gemini_attempts env prompt max_retries (attempt # attempts) =
     (case generate_content env attempt prompt of
        Inr reply \<Rightarrow>
          if reply \<noteq> [] then Some (py_strip reply)
          else gemini_attempts env prompt max_retries attempts
      | Inl e \<Rightarrow>
          if attempt = max_retries then None
          else gemini_attempts env prompt max_retries attempts)"

definition gemini_generate_response ::
  "env \<Rightarrow> gemini \<Rightarrow> ustring \<Rightarrow> nat \<Rightarrow> ustring option" where
  "gemini_generate_response env g prompt max_retries =
     (if \<not> is_available g \<or> gemini_model g = None then None
      else gemini_attempts env prompt max_retries [0..<max_retries + 1])"

section \<open>The chatbot (core/chatbot.py)\<close>

text \<open>
  The intent patterns are kept by the text they were compiled from, an intent with its
  patterns in the order of the configuration. The keyword configuration maps a group
  (\<open>visa\<close>, \<open>mastercard\<close>, \<open>brands\<close>,
      \<open>loans\<close>) to its entries, each with its trigger
  phrases.
\<close>

type_synonym intent_config = "(ustring, ustring list) dict"
type_synonym keyword_config = "(ustring, (ustring, ustring list) dict) dict"

record chatbot =
  the_context :: conversation_context
  gemini_service :: gemini
  semantic_service :: semantic
  knowledge_base :: knowledge
  intent_patterns :: intent_config
  the_keywords :: keyword_config

subsection \<open>Intent classification\<close>

text \<open>The inner loop of \<open>find_intent\<close> over the patterns of one intent; \<open>break\<close> leaves
  it with the new best pair.\<close>

fun find_intent_patterns ::
  "env \<Rightarrow> ustring \<Rightarrow> ustring \<Rightarrow> ustring list \<Rightarrow> ustring \<times> real \<Rightarrow> ustring \<times> real" where
  "find_intent_patterns env text_lower intent_name [] best = best"
| "find_intent_patterns env text_lower intent_name (pattern # patterns) best =
     (if search env pattern text_lower then
        (let score = 0.8 in
         if score > snd best then (intent_name, score)
         else find_intent_patterns env text_lower intent_name patterns best)
      else find_intent_patterns env text_lower intent_name patterns best)"

text \<open>The outer loop, over the intents.\<close>

fun find_intent_loop ::
  "env \<Rightarrow> ustring \<Rightarrow> intent_config \<Rightarrow> ustring \<times> real \<Rightarrow> ustring \<times> real" where
  "find_intent_loop env text_lower [] best = best"
| "find_intent_loop env text_lower (entry # entries) best =
     find_intent_loop env text_lower entries
       (find_intent_patterns env text_lower (fst entry) (snd entry) best)"

definition find_intent :: "env \<Rightarrow> chatbot \<Rightarrow> ustring \<Rightarrow> ustring \<times> real" where
  "find_intent env self text =
     (let text_lower = py_lower text
      in find_intent_loop env text_lower (intent_patterns self) ((ascii ''general''), 0.0))"

subsection \<open>Responses for cards and loans\<close>

definition generate_error_response :: "chatbot \<Rightarrow> ustring" where
  "generate_error_response self =
     (if user_language (the_context self) = (ascii ''bg'')
      then Fore_RED @ ([0x421, 0x44A, 0x436, 0x430, 0x43B, 0x44F, 0x432, 0x430, 0x43C]
          @ ascii '', '' @ [0x432, 0x44A, 0x437, 0x43D, 0x438, 0x43A, 0x43D, 0x430, 0x20, 0x433,
          0x440, 0x435, 0x448, 0x43A, 0x430] @ ascii ''. '' @ [0x41C, 0x43E, 0x43B, 0x44F]
          @ ascii '', '' @ [0x43E, 0x43F, 0x438, 0x442, 0x430, 0x439, 0x442, 0x435, 0x20, 0x43E,
          0x442, 0x43D, 0x43E, 0x432, 0x43E, 0x2E]) @ Style_RESET_ALL
      else Fore_RED @ (ascii ''Sorry, an error occurred. Please try again.'')
          @ Style_RESET_ALL)"

definition show_specific_card :: "chatbot \<Rightarrow> ustring \<Rightarrow> ustring \<Rightarrow> error + ustring" where
  "show_specific_card self brand card_name =
     try_except
       (let card_data = dict_get (dict_get (credit_cards (knowledge_base self)) brand []) card_name []
        in
          if card_data = [] then
            (if user_language (the_context self) = (ascii ''bg'')
             then Inr (Fore_RED @ ([0x421, 0x44A, 0x436, 0x430, 0x43B, 0x44F, 0x432, 0x430,
                 0x43C] @ ascii '', '' @ [0x43D, 0x435, 0x20, 0x43D, 0x430, 0x43C, 0x435, 0x440,
                 0x438, 0x445, 0x20, 0x438, 0x43D, 0x444, 0x43E, 0x440, 0x43C, 0x430, 0x446,
                 0x438, 0x44F, 0x20, 0x437, 0x430, 0x20]) @ card_name @ [0x2E]
                    @ Style_RESET_ALL)
             else Inr (Fore_RED @ (ascii ''Sorry, I couldn'' @ [0x27]
                 @ ascii ''t find information for '') @ card_name @ [0x2E]
                    @ Style_RESET_ALL))
          else render_specific_product card_name card_data (user_language (the_context self)))
       (\<lambda>e. Inr (generate_error_response self))"

definition show_brand_cards :: "chatbot \<Rightarrow> ustring \<Rightarrow> error + ustring" where
  "show_brand_cards self brand =
     try_except
       (let cards = dict_get (credit_cards (knowledge_base self)) brand [];
            header =
              (if user_language (the_context self) = (ascii ''bg'')
               then [0x412, 0x441, 0x438, 0x447, 0x43A, 0x438, 0x20, 0x43D, 0x430, 0x43B, 0x438,
                   0x447, 0x43D, 0x438, 0x20] @ brand @ ([0x20, 0x43A, 0x430, 0x440, 0x442,
                   0x438, 0x20, 0x43E, 0x442] @ ascii '' Fibank'')
               else (ascii ''All available '') @ brand @ (ascii '' cards from Fibank''));
            link_label =
              (if user_language (the_context self) = (ascii ''bg'') then [0x41F, 0x43E, 0x432,
                  0x435, 0x447, 0x435, 0x20, 0x438, 0x43D, 0x444, 0x43E, 0x440, 0x43C, 0x430,
                  0x446, 0x438, 0x44F]
               else (ascii ''More information''))
        in render_product_list header cards get_credit_card_summary link_label
             (user_language (the_context self)))
       (\<lambda>e. Inr (generate_error_response self))"

text \<open>The two loops of \<open>_show_all_credit_cards\<close>: over the cards of a brand,
    and over the
  brands. A summary extractor that raises ends the whole listing.\<close>

fun all_cards_of_brand ::
  "ustring \<Rightarrow> (ustring,
      attributes) dict \<Rightarrow> ustring \<Rightarrow> error + ustring" where
  "all_cards_of_brand lang [] response = Inr response"
| "all_cards_of_brand lang (item # cards) response =
     (let card_name = fst item; card_info = snd item;
          response = response @ ([0x1F539] @ ascii '' **'') @ card_name @ (ascii ''**'' @ [0xA])
      in
        case get_credit_card_summary card_info of
          Inl e \<Rightarrow> Inl e
        | Inr summary \<Rightarrow>
            let response = (if summary \<noteq> [] then response @ (ascii ''   '') @ summary
                @ [0xA] else response);
                link = dict_get card_info (ascii ''link'') [];
                response =
                  (if link \<noteq> [] then
                     (if lang = (ascii ''bg'') then response @ (ascii ''   '' @ [0x1F517, 0x20,
                         0x41F, 0x43E, 0x432, 0x435, 0x447, 0x435, 0x20, 0x438, 0x43D, 0x444,
                         0x43E, 0x440, 0x43C, 0x430, 0x446, 0x438, 0x44F] @ ascii '': '') @ link
                         @ [0xA, 0xA]
                      else response @ (ascii ''   '' @ [0x1F517] @ ascii '' More info: '')
                          @ link @ [0xA, 0xA])
                   else response @ [0xA])
            in all_cards_of_brand lang cards response)"

fun all_brands :: "ustring \<Rightarrow> dataset \<Rightarrow> ustring \<Rightarrow> error + ustring" where
  "all_brands lang [] response = Inr response"
| "all_brands lang (entry # entries) response =
     (let brand = fst entry; cards = snd entry;
          response =
            (if lang = (ascii ''bg'') then response @ Fore_MAGENTA @ [0x1F4F1, 0x20] @ brand
                @ [0x20, 0x43A, 0x430, 0x440, 0x442, 0x438, 0x3A] @ Style_RESET_ALL @ [0xA]
             else response @ Fore_MAGENTA @ [0x1F4F1, 0x20] @ brand @ (ascii '' cards:'')
                 @ Style_RESET_ALL @ [0xA])
      in
        case all_cards_of_brand lang cards response of
          Inl e \<Rightarrow> Inl e
        | Inr response \<Rightarrow> all_brands lang entries response)"

definition show_all_credit_cards :: "chatbot \<Rightarrow> error + ustring" where
  "show_all_credit_cards self =
     try_except
       (let lang = user_language (the_context self);
            response =
              (if lang = (ascii ''bg'')
               then Fore_BLUE @ ([0x1F4B3, 0x20, 0x412, 0x441, 0x438, 0x447, 0x43A, 0x438, 0x20,
                   0x43D, 0x430, 0x43B, 0x438, 0x447, 0x43D, 0x438, 0x20, 0x43A, 0x440, 0x435,
                   0x434, 0x438, 0x442, 0x43D, 0x438, 0x20, 0x43A, 0x430, 0x440, 0x442, 0x438,
                   0x20, 0x43E, 0x442] @ ascii '' Fibank:'') @ Style_RESET_ALL @ [0xA, 0xA]
               else Fore_BLUE @ ([0x1F4B3] @ ascii '' All available credit cards from Fibank:'')
                   @ Style_RESET_ALL @ [0xA, 0xA])
        in
          case all_brands lang (credit_cards (knowledge_base self)) response of
            Inl e \<Rightarrow> Inl e
          | Inr response \<Rightarrow>
              if lang = (ascii ''bg'')
              then Inr (response @ Fore_YELLOW
                     @ ([0x417, 0x430, 0x20, 0x43F, 0x43E, 0x432, 0x435, 0x447, 0x435, 0x20,
                         0x434, 0x435, 0x442, 0x430, 0x439, 0x43B, 0x438, 0x20, 0x437, 0x430,
                         0x20, 0x43A, 0x43E, 0x43D, 0x43A, 0x440, 0x435, 0x442, 0x43D, 0x430,
                         0x20, 0x43A, 0x430, 0x440, 0x442, 0x430] @ ascii '', '' @ [0x43F,
                         0x440, 0x43E, 0x441, 0x442, 0x43E, 0x20, 0x44F, 0x20, 0x441, 0x43F,
                         0x43E, 0x43C, 0x435, 0x43D, 0x435, 0x442, 0x435, 0x20, 0x43F, 0x43E,
                         0x20, 0x438, 0x43C, 0x435, 0x2E])
                     @ Style_RESET_ALL)
              else Inr (response @ Fore_YELLOW
                     @ (ascii ''For more details about a specific card, just mention it by name.'')
                     @ Style_RESET_ALL))
       (\<lambda>e. Inr (generate_error_response self))"

definition show_loan_category :: "chatbot \<Rightarrow> ustring \<Rightarrow> error + ustring" where
  "show_loan_category self category_name =
     try_except
       (let loans = dict_get (credits (knowledge_base self)) category_name [];
            header =
              (if user_language (the_context self) = (ascii ''bg'')
               then [0x41F, 0x440, 0x43E, 0x434, 0x443, 0x43A, 0x442, 0x438, 0x20, 0x43E, 0x442,
                   0x20, 0x43A, 0x430, 0x442, 0x435, 0x433, 0x43E, 0x440, 0x438, 0x44F, 0x20,
                   0x22] @ category_name @ [0x22]
               else (ascii ''Products from category '' @ [0x22]) @ category_name @ [0x22]);
            link_label =
              (if user_language (the_context self) = (ascii ''bg'') then [0x417, 0x430, 0x20,
                  0x43F, 0x43E, 0x432, 0x435, 0x447, 0x435, 0x20, 0x438, 0x43D, 0x444, 0x43E,
                  0x440, 0x43C, 0x430, 0x446, 0x438, 0x44F, 0x20, 0x43F, 0x43E, 0x441, 0x435,
                  0x442, 0x435, 0x442, 0x435]
               else (ascii ''For more information visit''))
        in render_product_list header loans get_loan_summary link_label
             (user_language (the_context self)))
       (\<lambda>e. Inr (generate_error_response self))"

definition show_all_loan_categories :: "chatbot \<Rightarrow> error + ustring" where
  "show_all_loan_categories self =
     try_except
       (case render_category_overview (credits (knowledge_base self))
               (user_language (the_context self)) of
          Inl e \<Rightarrow> Inl e
        | Inr response \<Rightarrow>
            if user_language (the_context self) = (ascii ''bg'')
            then Inr (response @ Fore_YELLOW @ ([0x417, 0x430, 0x20, 0x434, 0x430, 0x20, 0x432,
                0x438, 0x434, 0x438, 0x442, 0x435, 0x20, 0x43A, 0x43E, 0x43D, 0x43A, 0x440,
                0x435, 0x442, 0x43D, 0x430, 0x20, 0x43A, 0x430, 0x442, 0x435, 0x433, 0x43E,
                0x440, 0x438, 0x44F] @ ascii '', '' @ [0x43C, 0x43E, 0x43B, 0x44F, 0x20, 0x443,
                0x442, 0x43E, 0x447, 0x43D, 0x435, 0x442, 0x435, 0x3A, 0xA, 0x2022, 0x20, 0x22,
                0x416, 0x438, 0x43B, 0x438, 0x449, 0x43D, 0x438, 0x20, 0x43A, 0x440, 0x435,
                0x434, 0x438, 0x442, 0x438, 0x22, 0x20, 0x438, 0x43B, 0x438, 0x20, 0x22, 0x438,
                0x43F, 0x43E, 0x442, 0x435, 0x447, 0x43D, 0x438, 0x20, 0x43A, 0x440, 0x435,
                0x434, 0x438, 0x442, 0x438, 0x22, 0xA, 0x2022, 0x20, 0x22, 0x41F, 0x43E, 0x442,
                0x440, 0x435, 0x431, 0x438, 0x442, 0x435, 0x43B, 0x441, 0x43A, 0x438, 0x20,
                0x43A, 0x440, 0x435, 0x434, 0x438, 0x442, 0x438, 0x22] @ ascii ''  '' @ [0xA,
                0x2022, 0x20, 0x22, 0x41E, 0x432, 0x44A, 0x440, 0x434, 0x440, 0x430, 0x444,
                0x442, 0x22, 0xA, 0x2022, 0x20, 0x22, 0x414, 0x440, 0x443, 0x433, 0x438, 0x20,
                0x43A, 0x440, 0x435, 0x434, 0x438, 0x442, 0x438, 0x22, 0xA, 0xA, 0x418, 0x43B,
                0x438, 0x20, 0x43C, 0x43E, 0x436, 0x435, 0x442, 0x435, 0x20, 0x434, 0x430, 0x20,
                0x441, 0x43F, 0x43E, 0x43C, 0x435, 0x43D, 0x435, 0x442, 0x435, 0x20, 0x43A,
                0x43E, 0x43D, 0x43A, 0x440, 0x435, 0x442, 0x435, 0x43D, 0x20, 0x43F, 0x440,
                0x43E, 0x434, 0x443, 0x43A, 0x442, 0x20, 0x43F, 0x43E, 0x20, 0x438, 0x43C,
                0x435, 0x2E]) @ Style_RESET_ALL)
            else Inr (response @ Fore_YELLOW
                @ (ascii ''To see a specific category, please specify:'' @ [0xA, 0x2022, 0x20,
                0x22] @ ascii ''Housing loans'' @ [0x22] @ ascii '' or '' @ [0x22]
                @ ascii ''mortgage loans'' @ [0x22, 0xA, 0x2022, 0x20, 0x22]
                @ ascii ''Consumer loans'' @ [0x22, 0xA, 0x2022, 0x20, 0x22]
                @ ascii ''Overdraft'' @ [0x22, 0xA, 0x2022, 0x20, 0x22] @ ascii ''Other loans''
                @ [0x22, 0xA, 0xA] @ ascii ''Or you can mention a specific product by name.'')
                @ Style_RESET_ALL))
       (\<lambda>e. Inr (generate_error_response self))"

text \<open>\<open>any(keyword.lower() in user_input_lower for keyword in keywords)\<close>.\<close>

definition any_keyword :: "ustring \<Rightarrow> ustring list \<Rightarrow> bool" where
  "any_keyword user_input_lower kws =
     list_ex (\<lambda>keyword. py_in (py_lower keyword) user_input_lower) kws"

text \<open>A loop that returns at the first entry one of whose keywords is in the input is
  \<^const>\<open>find\<close> over the entries.\<close>

definition handle_credit_card_inquiry :: "chatbot \<Rightarrow> ustring \<Rightarrow> error + ustring" where
  "handle_credit_card_inquiry self user_input =
     try_except
       (let user_input_lower = py_lower user_input;
            visa_keywords = dict_get (the_keywords self) (ascii ''visa'') [];
            mastercard_keywords = dict_get (the_keywords self) (ascii ''mastercard'') []
        in
          case find (\<lambda>(card_type,
              kws). any_keyword user_input_lower kws) visa_keywords of
            Some (card_type,
                kws) \<Rightarrow> show_specific_card self (ascii ''Visa'') ((ascii ''Visa '')
                @ py_title card_type)
          | None \<Rightarrow>
              (case find (\<lambda>(card_type,
                  kws). any_keyword user_input_lower kws) mastercard_keywords of
                 Some (card_type, kws) \<Rightarrow>
                   if card_type = (ascii ''first_lady'')
                   then show_specific_card self (ascii ''Mastercard'') (ascii ''Mastercard Platinum First Lady'')
                   else show_specific_card self (ascii ''Mastercard'') ((ascii ''Mastercard '')
                       @ py_title card_type)
               | None \<Rightarrow>
                   let brand_keywords = dict_get (the_keywords self) (ascii ''brands'') [];
                       visa_mentioned =
                         any_keyword user_input_lower (dict_get brand_keywords (ascii ''visa'') []);
                       mastercard_mentioned =
                         any_keyword user_input_lower (dict_get brand_keywords (ascii ''mastercard'') [])
                   in
                     if visa_mentioned \<and> \<not> mastercard_mentioned then show_brand_cards self (ascii ''Visa'')
                     else if mastercard_mentioned \<and> \<not> visa_mentioned
                     then show_brand_cards self (ascii ''Mastercard'')
                     else show_all_credit_cards self))
       (\<lambda>e. Inr (generate_error_response self))"

definition category_mapping :: "(ustring, ustring) dict" where
  "category_mapping =
     [((ascii ''housing''), [0x416, 0x438, 0x43B, 0x438, 0x449, 0x43D, 0x438, 0x20, 0x438, 0x20,
         0x438, 0x43F, 0x43E, 0x442, 0x435, 0x447, 0x43D, 0x438, 0x20, 0x43A, 0x440, 0x435,
         0x434, 0x438, 0x442, 0x438]),
      ((ascii ''consumer''), [0x41F, 0x43E, 0x442, 0x440, 0x435, 0x431, 0x438, 0x442, 0x435,
          0x43B, 0x441, 0x43A, 0x438, 0x20, 0x43A, 0x440, 0x435, 0x434, 0x438, 0x442, 0x438]),
      ((ascii ''overdraft''), [0x41E, 0x432, 0x44A, 0x440, 0x434, 0x440, 0x430, 0x444, 0x442]),
      ((ascii ''other''), [0x414, 0x440, 0x443, 0x433, 0x438, 0x20, 0x43A, 0x440, 0x435, 0x434,
          0x438, 0x442, 0x438])]"

definition handle_loan_inquiry :: "chatbot \<Rightarrow> ustring \<Rightarrow> error + ustring" where
  "handle_loan_inquiry self user_input =
     try_except
       (let user_input_lower = py_lower user_input;
            loan_keywords = dict_get (the_keywords self) (ascii ''loans'') [];
            mentioned_types =
              map fst (filter (\<lambda>(loan_type,
                  kws). any_keyword user_input_lower kws) loan_keywords)
        in
          case mentioned_types of
            [loan_type] \<Rightarrow>
              (case map_of category_mapping loan_type of
                 Some cat \<Rightarrow>
                   if cat \<noteq> [] then show_loan_category self cat
                   else show_all_loan_categories self
               | None \<Rightarrow> show_all_loan_categories self)
          | _ \<Rightarrow> show_all_loan_categories self)
       (\<lambda>e. Inr (generate_error_response self))"

subsection \<open>The generated answer and its fallback\<close>

text \<open>The loop of \<open>_generate_semantic_fallback_response\<close> over
  \<open>enumerate(relevant_products[:3], 1)\<close>, from number \<open>i\<close> on.\<close>

fun fallback_items :: "nat \<Rightarrow> (ustring \<times> product \<times> real) list \<Rightarrow> ustring \<Rightarrow> ustring" where
  "fallback_items i [] response = response"
| "fallback_items i (entry # entries) response =
     (let p = fst (snd entry);
          response = response @ py_str i @ (ascii ''. **'') @ name p @ (ascii ''**'' @ [0xA]);
          response =
            (if description p \<noteq> [] then
               let desc = py_slice_to (description p) 200;
                   desc = (if length (description p) > 200 then desc
                       @ (ascii ''...'') else desc)
               in response @ (ascii ''   '') @ desc @ [0xA, 0xA]
             else response)
      in fallback_items (i + 1) entries response)"

definition generate_semantic_fallback_response ::
  "env \<Rightarrow> chatbot \<Rightarrow> ustring \<Rightarrow> (error + ustring) \<times> chatbot" where
  "generate_semantic_fallback_response env self user_input =
     try_except_st
       (case find_similar_products env (semantic_service self) user_input 5 0.3 of
          (Inl e, s) \<Rightarrow> (Inl e, self\<lparr>semantic_service := s\<rparr>)
        | (Inr relevant_products, s) \<Rightarrow>
            let self = self\<lparr>semantic_service := s\<rparr>;
                lang = user_language (the_context self)
            in
              if relevant_products = [] then
                (if lang = (ascii ''bg'')
                 then (Inr (Fore_YELLOW @ ([0x421, 0x44A, 0x436, 0x430, 0x43B, 0x44F, 0x432,
                     0x430, 0x43C] @ ascii '', '' @ [0x43D, 0x435, 0x20, 0x43D, 0x430, 0x43C,
                     0x435, 0x440, 0x438, 0x445, 0x20, 0x440, 0x435, 0x43B, 0x435, 0x432, 0x430,
                     0x43D, 0x442, 0x43D, 0x430, 0x20, 0x438, 0x43D, 0x444, 0x43E, 0x440, 0x43C,
                     0x430, 0x446, 0x438, 0x44F, 0x20, 0x437, 0x430, 0x20, 0x432, 0x430, 0x448,
                     0x438, 0x44F, 0x20, 0x432, 0x44A, 0x43F, 0x440, 0x43E, 0x441]
                     @ ascii ''. '' @ [0x41C, 0x43E, 0x436, 0x435, 0x442, 0x435, 0x20, 0x434,
                     0x430, 0x20, 0x43F, 0x43E, 0x43F, 0x438, 0x442, 0x430, 0x442, 0x435, 0x20,
                     0x437, 0x430, 0x20, 0x43A, 0x440, 0x435, 0x434, 0x438, 0x442, 0x43D, 0x438,
                     0x20, 0x43A, 0x430, 0x440, 0x442, 0x438, 0x20, 0x438, 0x43B, 0x438, 0x20,
                     0x43A, 0x440, 0x435, 0x434, 0x438, 0x442, 0x438, 0x2E]) @ Style_RESET_ALL),
                     self)
                 else (Inr (Fore_YELLOW @ (ascii ''Sorry, I couldn'' @ [0x27]
                     @ ascii ''t find relevant information for your question. You can ask about credit cards or loans.'') @ Style_RESET_ALL), self))
              else
                let response =
                      (if lang = (ascii ''bg'')
                       then Fore_BLUE
                         @ ([0x412, 0x44A, 0x437, 0x20, 0x43E, 0x441, 0x43D, 0x43E, 0x432,
                             0x430, 0x20, 0x43D, 0x430, 0x20, 0x432, 0x430, 0x448, 0x438, 0x44F,
                             0x20, 0x432, 0x44A, 0x43F, 0x440, 0x43E, 0x441] @ ascii '', ''
                             @ [0x435, 0x442, 0x43E, 0x20, 0x43D, 0x44F, 0x43A, 0x43E, 0x438,
                             0x20, 0x43F, 0x440, 0x43E, 0x434, 0x443, 0x43A, 0x442, 0x438]
                             @ ascii '', '' @ [0x43A, 0x43E, 0x438, 0x442, 0x43E, 0x20, 0x431,
                             0x438, 0x445, 0x430, 0x20, 0x43C, 0x43E, 0x433, 0x43B, 0x438, 0x20,
                             0x434, 0x430, 0x20, 0x432, 0x438, 0x20, 0x438, 0x43D, 0x442, 0x435,
                             0x440, 0x435, 0x441, 0x443, 0x432, 0x430, 0x442, 0x3A])
                         @ Style_RESET_ALL @ [0xA, 0xA]
                       else Fore_BLUE
                         @ (ascii ''Based on your question, here are some products that might interest you:'')
                         @ Style_RESET_ALL @ [0xA, 0xA]);
                    response = fallback_items 1 (py_slice_to relevant_products 3) response
                in
                  if lang = (ascii ''bg'')
                  then (Inr (response @ Fore_YELLOW
                          @ [0x418, 0x441, 0x43A, 0x430, 0x442, 0x435, 0x20, 0x43B, 0x438, 0x20,
                              0x434, 0x430, 0x20, 0x43D, 0x430, 0x443, 0x447, 0x438, 0x442,
                              0x435, 0x20, 0x43F, 0x43E, 0x432, 0x435, 0x447, 0x435, 0x20,
                              0x437, 0x430, 0x20, 0x43D, 0x44F, 0x43A, 0x43E, 0x439, 0x20,
                              0x43E, 0x442, 0x20, 0x442, 0x435, 0x437, 0x438, 0x20, 0x43F,
                              0x440, 0x43E, 0x434, 0x443, 0x43A, 0x442, 0x438, 0x3F]
                          @ Style_RESET_ALL), self)
                  else (Inr (response @ Fore_YELLOW
                          @ (ascii ''Would you like to learn more about any of these products?'')
                          @ Style_RESET_ALL), self))
       (\<lambda>e self. (Inr (generate_error_response self), self))"

definition generate_ai_or_fallback_response ::
  "env \<Rightarrow> chatbot \<Rightarrow> ustring \<Rightarrow> ustring \<Rightarrow> real \<Rightarrow> (error + ustring) \<times> chatbot" where
  "generate_ai_or_fallback_response env self user_input intent_name conf =
     try_except_st
       (if is_available (gemini_service self) then
          (case find_similar_products env (semantic_service self) user_input 3 0.3 of
             (Inl e, s) \<Rightarrow> (Inl e, self\<lparr>semantic_service := s\<rparr>)
           | (Inr relevant_products, s) \<Rightarrow>
               let self = self\<lparr>semantic_service := s\<rparr>;
                   recent_context = get_recent_context (the_context self) 3;
                   prompt =
                     create_structured_prompt user_input (user_language (the_context self))
                       relevant_products recent_context
               in
                 (case gemini_generate_response env (gemini_service self) prompt 2 of
                    Some ai_response \<Rightarrow>
                      if ai_response \<noteq> [] then (Inr ai_response, self)
                      else generate_semantic_fallback_response env self user_input
                  | None \<Rightarrow> generate_semantic_fallback_response env self user_input))
        else generate_semantic_fallback_response env self user_input)
       (\<lambda>e self. generate_semantic_fallback_response env self user_input)"

subsection \<open>One turn\<close>

definition enter_question :: ustring where
  "enter_question = Fore_YELLOW @ ([0x1F4A1] @ ascii '' Please enter your question.'')
      @ Style_RESET_ALL"

text \<open>The contact footer of a language.\<close>

definition contact_information :: "ustring \<Rightarrow> ustring" where
  "contact_information lang =
     (if lang = (ascii ''bg'')
      then [0xA, 0xA] @ Fore_CYAN
        @ ([0x1F4DE, 0x20, 0x417, 0x430, 0x20, 0x43F, 0x43E, 0x432, 0x435, 0x447, 0x435, 0x20,
            0x438, 0x43D, 0x444, 0x43E, 0x440, 0x43C, 0x430, 0x446, 0x438, 0x44F]
            @ ascii '': *2265 '' @ [0x438, 0x43B, 0x438, 0x20, 0x43F, 0x43E, 0x441, 0x435,
            0x442, 0x435, 0x442, 0x435, 0x20, 0x43D, 0x44F, 0x43A, 0x43E, 0x439, 0x20, 0x43E,
            0x442, 0x20, 0x43D, 0x430, 0x448, 0x438, 0x442, 0x435] @ ascii '' 119 '' @ [0x43A,
            0x43B, 0x43E, 0x43D, 0x430, 0x20, 0x432, 0x20, 0x411, 0x44A, 0x43B, 0x433, 0x430,
            0x440, 0x438, 0x44F, 0x2E])
        @ Style_RESET_ALL
      else [0xA, 0xA] @ Fore_CYAN
        @ ([0x1F4DE]
            @ ascii '' For more information: *2265 or visit any of our 119 branches in Bulgaria.'')
        @ Style_RESET_ALL)"

text \<open>The body of the \<open>try\<close> of \<open>generate_response\<close>.\<close>

definition generate_response_try ::
  "env \<Rightarrow> chatbot \<Rightarrow> ustring \<Rightarrow> (error + ustring) \<times> chatbot" where
  "generate_response_try env self user_input =
     (if user_input = [] \<or> py_strip user_input = [] then (Inr enter_question, self)
      else
        (case detect_language env user_input of
           Inl e \<Rightarrow> (Inl e, self)
         | Inr lang \<Rightarrow>
             let self = self\<lparr>the_context := (the_context self)\<lparr>user_language := lang\<rparr>\<rparr>;
                 found = find_intent env self user_input;
                 intent_name = fst found;
                 conf = snd found;
                 self = self\<lparr>the_context := (the_context self)
                         \<lparr>conversation_history := conversation_history (the_context self) @
                            [\<lparr>user = user_input, timestamp = now_isoformat env,
                              language = user_language (the_context self),
                              intent = intent_name, confidence = conf\<rparr>]\<rparr>\<rparr>
             in
               (case (if intent_name = (ascii ''credit_cards'')
                      then (handle_credit_card_inquiry self user_input, self)
                      else if intent_name = (ascii ''loans'')
                      then (handle_loan_inquiry self user_input, self)
                      else generate_ai_or_fallback_response env self user_input intent_name conf) of
                  (Inl e, self) \<Rightarrow> (Inl e, self)
                | (Inr response, self) \<Rightarrow>
                    (Inr (response @ contact_information (user_language (the_context self))),
                        self))))"

definition generate_response ::
  "env \<Rightarrow> chatbot \<Rightarrow> ustring \<Rightarrow> (error + ustring) \<times> chatbot" where
  "generate_response env self user_input =
     try_except_st (generate_response_try env self user_input)
       (\<lambda>e self. (Inr (generate_error_response self), self))"

section \<open>Definitions for the statements\<close>

subsection \<open>What the specification's words say\<close>

text \<open>A Cyrillic letter: a code point of the Unicode block \<open>U+0400..U+04FF\<close> other than
  its signs and combining marks \<open>U+0482..U+0489\<close>.\<close>

definition cyrillic_letter :: "nat \<Rightarrow> bool" where
  "cyrillic_letter c = ((0x400 \<le> c \<and> c \<le> 0x481) \<or> (0x48A \<le> c \<and> c \<le> 0x4FF))"

subsection \<open>The catalog as the specification words it\<close>

text \<open>The key of a product: its name with the quote characters \<open>U+0022\<close> and
  \<open>U+201E\<close> stripped.\<close>

definition stripped_name :: "ustring \<Rightarrow> ustring" where
  "stripped_name nm = filter (\<lambda>c. c \<noteq> 0x22 \<and> c \<noteq> 0x201E) nm"

text \<open>The entries of one dataset, category by category: each product under its stripped
  name, tagged with the kind of the dataset and its category, with the "product
  information" attribute as description if it is present and the empty string if it is
  not, and with its whole attribute map.\<close>

definition specified_entries :: "ustring \<Rightarrow> dataset \<Rightarrow> (ustring \<times> product) list" where
  "specified_entries kind ds =
     concat (map (\<lambda>(cat, items).
                    map (\<lambda>(nm, info).
                           (stripped_name nm,
                            \<lparr>name = nm, type = kind, category = cat,
                             description =
                               (case map_of info product_information of
                                  None \<Rightarrow> []
                                | Some text \<Rightarrow> text),
                             raw_data = info\<rparr>))
                      items)
               ds)"

text \<open>The writes of the catalog build in the order they happen: the cards dataset as
  \<open>credit_card\<close> entries,
      then the loans dataset as \<open>credit\<close> entries.\<close>

definition specified_writes :: "dataset \<Rightarrow> dataset \<Rightarrow> (ustring \<times> product) list" where
  "specified_writes cards loans =
     specified_entries (ascii ''credit_card'') cards
         @ specified_entries (ascii ''credit'') loans"

subsection \<open>The loan summary\<close>

text \<open>The loan summary as the specification words it: the first two lines of the
  description that are not empty and do not start with \<open>-\<close>,
      joined by line feeds.\<close>

definition specified_loan_summary :: "ustring \<Rightarrow> ustring" where
  "specified_loan_summary info =
     py_join [0xA]
       (take 2 (filter (\<lambda>line. line \<noteq> [] \<and> \<not> py_startswith line [0x2D]) (py_split info [0xA])))"

text \<open>A line the loan summary keeps.\<close>

definition plain_line :: "ustring \<Rightarrow> bool" where
  "plain_line line = (line \<noteq> [] \<and> \<not> py_startswith line [0x2D])"

subsection \<open>The embedding index over a sequence of calls\<close>

text \<open>The index is aligned: as many keys as texts, and as many embedding vectors as keys
  once the embeddings exist.\<close>

definition aligned :: "semantic \<Rightarrow> bool" where
  "aligned s =
     (length (s_product_keys s) = length (s_product_texts s)
      \<and> (case s_embeddings s of
           None \<Rightarrow> True
         | Some embeddings \<Rightarrow> length embeddings = length (s_product_keys s)))"

text \<open>The contract of the embedding model: \<open>encode\<close> returns one vector for each text.\<close>

definition one_vector_per_text :: "env \<Rightarrow> bool" where
  "one_vector_per_text env =
     (\<forall>texts embeddings. encode env texts = Inr embeddings \<longrightarrow> length embeddings = length texts)"

text \<open>A call of one of the three public methods of the semantic service, and the state
  after a sequence of calls, each with the outside world it ran in.\<close>

datatype call =
  Set_knowledge_base knowledge
| Build_embeddings
| Find_similar_products ustring int real

fun do_call :: "env \<Rightarrow> call \<Rightarrow> semantic \<Rightarrow> semantic" where
  "do_call env (Set_knowledge_base kb) s = set_knowledge_base s kb"
| "do_call env Build_embeddings s = snd (build_embeddings env s)"
| "do_call env (Find_similar_products query top_k threshold) s =
     snd (find_similar_products env s query top_k threshold)"

fun do_calls :: "(env \<times> call) list \<Rightarrow> semantic \<Rightarrow> semantic" where
  "do_calls [] s = s"
| "do_calls (c # cs) s = do_calls cs (do_call (fst c) (snd c) s)"

section \<open>Example data\<close>

text \<open>
  An outside world: a language detector that answers Ukrainian, patterns that match
  where their text occurs, a transformer that loads and gives every text the same
  vector, a similarity of one half to every product, and a Gemini model that raises.
\<close>

definition example_env :: env where
  "example_env =
     \<lparr>detect = (\<lambda>text. Inr (ascii ''uk'')),
      search = (\<lambda>pattern s. py_in pattern s),
      now_isoformat = (ascii ''2024-05-01T12:00:00''),
      SentenceTransformer = (\<lambda>mname. Inr ()),
      encode = (\<lambda>texts. Inr (map (\<lambda>t. [1]) texts)),
      cosine_similarity = (\<lambda>q embeddings. Inr [map (\<lambda>v. 1 / 2) embeddings]),
      generate_content = (\<lambda>attempt prompt. Inl OtherException)\<rparr>"

text \<open>The same world with a language detector that fails with an exception of its own.\<close>

definition failing_env :: env where
  "failing_env = example_env\<lparr>detect := (\<lambda>text. Inl OtherException)\<rparr>"

text \<open>Two cards and two loans; the card \<open>"Gold"\<close> (in quotes) and the loan \<open>Gold\<close> share
  a key.\<close>

definition example_cards :: dataset where
  "example_cards =
     [((ascii ''Visa''), [((ascii ''Visa Classic''), [(product_information,
         (ascii ''Limit: 1000; Cashback: 1%''))]),
                (([0x22] @ ascii ''Gold'' @ [0x22]), [((ascii ''link''),
                    (ascii ''fibank.bg/gold''))])])]"

definition example_loans :: dataset where
  "example_loans =
     [((ascii ''Home''), [((ascii ''Gold''), [(product_information, [0xA, 0x41, 0xA, 0x42])]),
                ((ascii ''Start''), [])])]"

text \<open>Two cards whose names are written between quotes,
    the opening one \<open>U+201E\<close> and
  the closing one \<open>U+0022\<close>; the first shares its key with the loan \<open>Gold\<close>.\<close>

definition quoted_cards :: dataset where
  "quoted_cards =
     [((ascii ''Visa''), [(([0x201E] @ ascii ''Gold'' @ [0x22]), [((ascii ''link''),
         (ascii ''fibank.bg/gold''))]),
                (([0x201E] @ ascii ''Platinum'' @ [0x22] @ ascii '' Card''),
                    [(product_information, (ascii ''Limit: 5000''))])])]"

definition example_knowledge :: knowledge where
  "example_knowledge =
     \<lparr>products = combine_products example_cards example_loans,
      credit_cards = example_cards, credits = example_loans\<rparr>"

definition example_context :: conversation_context where
  "example_context =
     \<lparr>user_language = (ascii ''en''), current_topic = None, user_preferences = [],
      conversation_history = [], conversation_memory = [], last_products_discussed = [],
      user_interests = []\<rparr>"

text \<open>A chatbot after \<open>__init__\<close>: no Gemini key configured,
    the knowledge base handed to
  the semantic service, nothing indexed yet.\<close>

definition example_chatbot :: chatbot where
  "example_chatbot =
     \<lparr>the_context = example_context,
      gemini_service = \<lparr>gemini_model_name = (ascii ''gemini-1.5-flash''),
          gemini_model = None,
                        is_available = False\<rparr>,
      semantic_service = set_knowledge_base (semantic_init (ascii ''MiniLM'')) example_knowledge,
      knowledge_base = example_knowledge,
      intent_patterns = [((ascii ''credit_cards''), [(ascii ''card''), (ascii ''visa'')]),
          ((ascii ''loans''), [(ascii ''loan''), (ascii ''card'')])],
      the_keywords = [((ascii ''visa''), [((ascii ''classic''), [(ascii ''visa classic'')])]),
                      ((ascii ''loans''), [((ascii ''housing''),
                          [(ascii ''mortgage'')])])]\<rparr>"

text \<open>The same chatbot in a session whose last turn was Bulgarian.\<close>

definition bulgarian_chatbot :: chatbot where
  "bulgarian_chatbot =
     example_chatbot\<lparr>the_context := example_context\<lparr>user_language := (ascii ''bg'')\<rparr>\<rparr>"

section \<open>Evaluation\<close>

text \<open>The defining equations that evaluate text, colours and the example data.\<close>

lemmas text_eval = ascii_def py_lower_def lower_cp_def upper_cp_def py_isspace_def py_strip_def
  py_startswith_def py_endswith_def py_split_def py_slice_to_def py_last_def dict_get_def
  product_information_def remove_char_def product_key_def

lemmas colour_eval = Fore_RED_def Fore_GREEN_def Fore_YELLOW_def Fore_BLUE_def Fore_MAGENTA_def
  Fore_CYAN_def Style_RESET_ALL_def

lemma example_products:
  "products example_knowledge =
     [((ascii ''Visa Classic''),
       \<lparr>name = (ascii ''Visa Classic''), type = (ascii ''credit_card''),
           category = (ascii ''Visa''),
        description = (ascii ''Limit: 1000; Cashback: 1%''),
        raw_data = [(product_information, (ascii ''Limit: 1000; Cashback: 1%''))]\<rparr>),
      ((ascii ''Gold''),
       \<lparr>name = (ascii ''Gold''), type = (ascii ''credit''), category = (ascii ''Home''),
           description = [0xA, 0x41, 0xA, 0x42],
        raw_data = [(product_information, [0xA, 0x41, 0xA, 0x42])]\<rparr>),
      ((ascii ''Start''),
       \<lparr>name = (ascii ''Start''), type = (ascii ''credit''), category = (ascii ''Home''),
           description = [],
        raw_data = []\<rparr>)]"
  by (simp add: example_knowledge_def combine_products_def example_cards_def example_loans_def
        text_eval)

section \<open>Language detection\<close>

lemma in_dropWhile: "c \<in> set s \<Longrightarrow> \<not> P c \<Longrightarrow> c \<in> set (dropWhile P s)"
  by (induction s) auto

lemma strip_keeps: "c \<in> set s \<Longrightarrow> \<not> py_isspace c \<Longrightarrow> c \<in> set (py_strip s)"
  by (simp add: py_strip_def in_dropWhile)

lemma bulgarian_chars_range: "x \<in> set bulgarian_chars \<Longrightarrow> 0x430 \<le> x \<and> x \<le> 0x44F"
  by (auto simp: bulgarian_chars_def)

lemma lower_cp_range:
  "0x430 \<le> lower_cp c \<Longrightarrow> lower_cp c \<le> 0x44F \<Longrightarrow> 0x410 \<le> c \<and> c \<le> 0x44F"
  by (simp add: lower_cp_def split: if_splits)

lemma bulgarian_not_space: "lower_cp c \<in> set bulgarian_chars \<Longrightarrow> \<not> py_isspace c"
  using bulgarian_chars_range [of "lower_cp c"] lower_cp_range [of c]
  by (simp add: py_isspace_def)

lemma hi_not_blank: "(ascii ''hi'') \<noteq> ([]::ustring) \<and> py_strip (ascii ''hi'') \<noteq> []"
  by (simp add: text_eval)

lemma hi_language: "detect_language example_env (ascii ''hi'') = Inr (ascii ''en'')"
  by (simp add: detect_language_def example_env_def bulgarian_chars_def bulgarian_words_def
        text_eval)

lemma hi_language_fails: "detect_language failing_env (ascii ''hi'') = Inl OtherException"
  by (simp add: detect_language_def failing_env_def example_env_def bulgarian_chars_def
        bulgarian_words_def text_eval)

text \<open>
  Claim C4, as amended. For every input that contains a letter of the Bulgarian alphabet,
  the thirty letters of \<open>bulgarian_chars\<close> in either case,
      \<open>detect_language\<close> returns
  \<open>bg\<close>, whatever the statistical detector would say. (Other Cyrillic letters,
      such as
  the Russian \<open>U+044B\<close> or the Ukrainian \<open>U+0457\<close>,
      are left to the detector.)
\<close>

theorem detect_language_bulgarian_letter:
  "c \<in> set text \<Longrightarrow> lower_cp c \<in> set bulgarian_chars \<Longrightarrow>
     detect_language env text = Inr (ascii ''bg'')"
proof -
  assume c: "c \<in> set text" and l: "lower_cp c \<in> set bulgarian_chars"
  have "c \<in> set (py_strip text)" using c l by (intro strip_keeps bulgarian_not_space)
  then have ne: "text \<noteq> []" "py_strip text \<noteq> []" using c by auto
  have "list_ex (\<lambda>char. char \<in> set bulgarian_chars) (py_lower text)"
    using c l by (auto simp: list_ex_iff py_lower_def)
  then show ?thesis using ne by (simp add: detect_language_def Let_def)
qed

text \<open>The word "Banka" in Cyrillic, with its capital letter \<open>U+0411\<close>.\<close>

theorem detect_language_bulgarian_letter_witness:
  "0x411 \<in> set [0x411, 0x430, 0x43D, 0x43A,
      0x430] \<and> lower_cp 0x411 \<in> set bulgarian_chars
   \<and> detect_language example_env [0x411, 0x430, 0x43D, 0x43A, 0x430] = Inr (ascii ''bg'')"
proof -
  have a: "0x411 \<in> set [0x411, 0x430, 0x43D, 0x43A, 0x430]" by simp
  have b: "lower_cp 0x411 \<in> set bulgarian_chars"
    by (simp add: lower_cp_def bulgarian_chars_def)
  from detect_language_bulgarian_letter [OF a b, of example_env] a b show ?thesis by simp
qed

text \<open>The claim as stated fails on the Ukrainian word of two letters \<open>U+0457\<close>: both are
  Cyrillic letters, neither is in \<open>bulgarian_chars\<close>,
      and a detector that answers \<open>uk\<close>
  makes the result \<open>en\<close>.\<close>

theorem detect_language_cyrillic_counterexample:
  "list_ex cyrillic_letter [0x457, 0x457] \<and> detect_language example_env [0x457,
      0x457] = Inr (ascii ''en'')
   \<and> detect_language example_env [0x457, 0x457] \<noteq> Inr (ascii ''bg'')"
  by (simp add: cyrillic_letter_def detect_language_def example_env_def bulgarian_chars_def
        bulgarian_words_def text_eval)

section \<open>Intent classification\<close>

lemma find_intent_patterns_settled:
  "snd best = 0.8 \<Longrightarrow> find_intent_patterns env t i ps best = best"
  by (induction ps) simp_all

lemma find_intent_loop_settled:
  "snd best = 0.8 \<Longrightarrow> find_intent_loop env t es best = best"
  by (induction es) (simp_all add: find_intent_patterns_settled)

lemma find_intent_patterns_first:
  "snd best = 0 \<Longrightarrow>
   find_intent_patterns env t i ps best =
     (if list_ex (\<lambda>p. search env p t) ps then (i, 0.8) else best)"
  by (induction ps) simp_all

lemma find_intent_loop_first:
  "snd best = 0 \<Longrightarrow>
   find_intent_loop env t es best =
     (case find (\<lambda>entry. list_ex (\<lambda>p. search env p t) (snd entry)) es of
        None \<Rightarrow> best | Some entry \<Rightarrow> (fst entry, 0.8))"
proof (induction es)
  case Nil
  then show ?case by simp
next
  case (Cons e es)
  show ?case
  proof (cases "list_ex (\<lambda>p. search env p t) (snd e)")
    case True
    then show ?thesis
      using Cons.prems by (simp add: find_intent_patterns_first find_intent_loop_settled)
  next
    case False
    then show ?thesis
      using Cons by (simp add: find_intent_patterns_first)
  qed
qed

lemma hi_intent:
  "find_intent example_env (example_chatbot\<lparr>the_context := c\<rparr>) (ascii ''hi'') = ((ascii ''general''), 0)"
  by (simp add: find_intent_def example_env_def example_chatbot_def text_eval)

text \<open>
  Claim C3. For every input text, \<open>find_intent\<close> returns \<open>("general",
      0.0)\<close> when no
  configured pattern matches the lowercased input, and otherwise the earliest intent, in
  the iteration order of the configuration, that has a matching pattern, with confidence
  0.8.
\<close>

theorem find_intent_first_matching_category:
  "find_intent env self text =
     (case find (\<lambda>entry. list_ex (\<lambda>pattern. search env pattern (py_lower text)) (snd entry))
             (intent_patterns self) of
        None \<Rightarrow> ((ascii ''general''), 0)
      | Some entry \<Rightarrow> (fst entry, 0.8))"
  by (simp add: find_intent_def find_intent_loop_first)

text \<open>Both intents of the example have a pattern that matches; the first one wins.\<close>

theorem find_intent_first_matching_category_witness:
  "find_intent example_env example_chatbot (ascii ''My Card'') = ((ascii ''credit_cards''), 0.8)
   \<and> find_intent example_env example_chatbot (ascii ''hello'') = ((ascii ''general''), 0)"
  using find_intent_first_matching_category [of example_env example_chatbot "(ascii ''My Card'')"]
    find_intent_first_matching_category [of example_env example_chatbot "(ascii ''hello'')"]
  by (simp add: example_env_def example_chatbot_def text_eval)

section \<open>The catalog\<close>

lemma fold_update_map_of:
  "map_of (fold (\<lambda>(k, v). AList.update k v) xs d) = map_of d ++ map_of (rev xs)"
proof (induction xs arbitrary: d)
  case Nil
  then show ?case by simp
next
  case (Cons x xs)
  obtain k v where x: "x = (k, v)" by (cases x)
  show ?case
    by (rule ext) (simp add: x Cons.IH AList.update_conv' map_add_def split: option.splits)
qed

lemma fold_update_distinct:
  "distinct (map fst d) \<Longrightarrow> distinct (map fst (fold (\<lambda>(k,
      v). AList.update k v) xs d))"
  by (induction xs arbitrary: d) (auto simp: AList.distinct_update)

lemma product_key_stripped: "product_key nm = stripped_name nm"
  by (induction nm) (simp_all add: product_key_def remove_char_def stripped_name_def)

lemma combine_fold_entries:
  "fold (\<lambda>(cat, items).
       fold (\<lambda>(nm, info).
         AList.update (product_key nm)
           \<lparr>name = nm, type = kind, category = cat,
            description = dict_get info product_information [], raw_data = info\<rparr>)
         items)
     ds d
   = fold (\<lambda>(k, v). AList.update k v) (specified_entries kind ds) d"
proof (induction ds arbitrary: d)
  case Nil
  then show ?case by (simp add: specified_entries_def)
next
  case (Cons x ds)
  obtain cat items where x: "x = (cat, items)" by (cases x)
  have inner: "fold (\<lambda>(nm, info).
         AList.update (product_key nm)
           \<lparr>name = nm, type = kind, category = cat,
            description = dict_get info product_information [], raw_data = info\<rparr>)
         items d0
     = fold (\<lambda>(k, v). AList.update k v)
         (map (\<lambda>(nm, info). (product_key nm,
                            \<lparr>name = nm, type = kind, category = cat,
                             description = dict_get info product_information [],
                             raw_data = info\<rparr>)) items) d0" for d0
    by (induction items arbitrary: d0) auto
  have "specified_entries kind (x # ds) =
          map (\<lambda>(nm, info). (product_key nm,
                            \<lparr>name = nm, type = kind, category = cat,
                             description = dict_get info product_information [],
                             raw_data = info\<rparr>)) items @ specified_entries kind ds"
    by (simp add: specified_entries_def x product_key_stripped dict_get_def)
  then show ?case
    using Cons.IH by (simp add: x inner)
qed

lemma combine_products_fold:
  "combine_products cards loans =
     fold (\<lambda>(k, v). AList.update k v) (specified_writes cards loans) []"
  by (simp add: combine_products_def Let_def combine_fold_entries specified_writes_def)

text \<open>
  Claim C8. For every pair of source datasets, the catalog holds, under each key, the
  record of the last write to that key, where the writes are those the specification
  words: the entries of the cards dataset followed by those of the loans dataset, each
  under its name with the quote characters \<open>U+0022\<close> and \<open>U+201E\<close> stripped, with
  the "product information" attribute (or the empty string) as description and the kind
  \<open>credit_card\<close> or \<open>credit\<close>. No key occurs twice.
\<close>

theorem combine_products_last_write_wins:
  "map_of (combine_products cards loans) = map_of (rev (specified_writes cards loans))
   \<and> distinct (map fst (combine_products cards loans))"
  by (simp add: combine_products_fold fold_update_map_of fold_update_distinct)

text \<open>The card written \<open>Gold\<close> between the quotes \<open>U+201E\<close> and \<open>U+0022\<close> and the
  loan \<open>Gold\<close> collide, and the loan, written later, stays. The card whose name has
  the quoted word \<open>Platinum\<close> is stored under the name without either quote,
      with its
  name as it was written.\<close>

theorem combine_products_last_write_wins_witness:
  "map_of (combine_products quoted_cards example_loans) (ascii ''Gold'') =
     Some \<lparr>name = (ascii ''Gold''), type = (ascii ''credit''),
         category = (ascii ''Home''), description = [0xA, 0x41, 0xA, 0x42],
           raw_data = [(product_information, [0xA, 0x41, 0xA, 0x42])]\<rparr>
   \<and> map_of (combine_products quoted_cards example_loans) (ascii ''Platinum Card'') =
     Some \<lparr>name = ([0x201E] @ ascii ''Platinum'' @ [0x22] @ ascii '' Card''),
         type = (ascii ''credit_card''), category = (ascii ''Visa''),
           description = (ascii ''Limit: 5000''),
           raw_data = [(product_information, (ascii ''Limit: 5000''))]\<rparr>
   \<and> map_of (combine_products quoted_cards example_loans) (ascii ''Start'') =
     Some \<lparr>name = (ascii ''Start''), type = (ascii ''credit''),
         category = (ascii ''Home''), description = [],
           raw_data = []\<rparr>
   \<and> map_of (combine_products quoted_cards example_loans) ([0x201E] @ ascii ''Gold''
       @ [0x22]) = None
   \<and> map_of (combine_products quoted_cards example_loans) ([0x201E] @ ascii ''Platinum''
       @ [0x22] @ ascii '' Card'') = None
   \<and> map_of (combine_products quoted_cards example_loans) (ascii ''Platinum'' @ [0x22]
       @ ascii '' Card'') = None
   \<and> map_of (combine_products quoted_cards example_loans) ([0x201E]
       @ ascii ''Platinum Card'') = None"
  using combine_products_last_write_wins [of quoted_cards example_loans]
  by (simp add: specified_writes_def specified_entries_def stripped_name_def quoted_cards_def
        example_loans_def text_eval)

section \<open>The loan summary\<close>

lemma loan_key_info_filter:
  "loan_key_info ls acc = acc @ filter plain_line (map py_strip ls)"
  by (induction ls arbitrary: acc) (simp_all add: plain_line_def Let_def)

lemma slice_to_2: "py_slice_to xs 2 = take 2 xs"
  by (simp add: py_slice_to_def)

text \<open>
  Claim C7, as amended. For every loan attribute mapping,
      \<open>get_loan_summary\<close> looks at the
  first two lines of the "product information" text only: it strips them, keeps those
  that are then not empty and do not start with \<open>-\<close>,
      and joins them with a line feed
  followed by three spaces. It returns the empty string when the attribute is absent or
  empty.
\<close>

theorem get_loan_summary_first_two_lines:
  "get_loan_summary loan_info =
     Inr (let info = dict_get loan_info product_information [] in
          if info = [] then []
          else py_join ([0xA] @ ascii ''   '')
                 (filter plain_line (map py_strip (take 2 (py_split info [0xA])))))"
  by (simp add: get_loan_summary_def try_except_def Let_def loan_key_info_filter slice_to_2)

theorem get_loan_summary_first_two_lines_witness:
  "get_loan_summary [(product_information, (ascii '' Fast '' @ [0xA] @ ascii ''Cheap'' @ [0xA]
      @ ascii ''- no fees''))] = Inr (ascii ''Fast'' @ [0xA] @ ascii ''   Cheap'')
   \<and> get_loan_summary [((ascii ''link''), (ascii ''fibank.bg''))] = Inr []"
  using get_loan_summary_first_two_lines [of "[(product_information, (ascii '' Fast '' @ [0xA]
      @ ascii ''Cheap'' @ [0xA] @ ascii ''- no fees''))]"]
    get_loan_summary_first_two_lines [of "[((ascii ''link''), (ascii ''fibank.bg''))]"]
  by (simp add: plain_line_def text_eval)

text \<open>The claim as stated fails on a description whose first line is empty: its first
  two lines that are not empty are \<open>A\<close> and \<open>B\<close>,
      and the summary is \<open>A\<close> alone.\<close>

theorem get_loan_summary_counterexample:
  "get_loan_summary [(product_information, [0xA, 0x41, 0xA, 0x42])] = Inr [0x41]
   \<and> specified_loan_summary [0xA, 0x41, 0xA, 0x42] = [0x41, 0xA, 0x42]"
  by (simp add: get_loan_summary_def try_except_def specified_loan_summary_def text_eval)

section \<open>Semantic search\<close>

subsection \<open>The state of the index\<close>

lemma aligned_iff:
  "aligned s \<longleftrightarrow>
     length (s_product_keys s) = length (s_product_texts s)
     \<and> (\<forall>E. s_embeddings s = Some E \<longrightarrow> length E = length (s_product_keys s))"
  by (simp add: aligned_def split: option.splits)

lemma model_fields:
  "model env s = (r, s') \<Longrightarrow>
     s_embeddings s' = s_embeddings s \<and> s_product_texts s' = s_product_texts s
     \<and> s_product_keys s' = s_product_keys s \<and> s_knowledge_base s' = s_knowledge_base s
     \<and> model_name s' = model_name s"
  by (auto simp: model_def try_except_st_def split: option.splits sum.splits)

lemma prepare_fold_fields:
  "s_embeddings (fold (\<lambda>(key, p) s.
                  s\<lparr>s_product_texts := s_product_texts s @ [product_text p],
                    s_product_keys := s_product_keys s
                        @ [key]\<rparr>) prods s) = s_embeddings s
   \<and> s_knowledge_base (fold (\<lambda>(key, p) s.
                  s\<lparr>s_product_texts := s_product_texts s @ [product_text p],
                    s_product_keys := s_product_keys s
                        @ [key]\<rparr>) prods s) = s_knowledge_base s
   \<and> model_name (fold (\<lambda>(key, p) s.
                  s\<lparr>s_product_texts := s_product_texts s @ [product_text p],
                    s_product_keys := s_product_keys s @ [key]\<rparr>) prods s) = model_name s
   \<and> s_model (fold (\<lambda>(key, p) s.
                  s\<lparr>s_product_texts := s_product_texts s @ [product_text p],
                    s_product_keys := s_product_keys s @ [key]\<rparr>) prods s) = s_model s
   \<and> length (s_product_texts (fold (\<lambda>(key, p) s.
                  s\<lparr>s_product_texts := s_product_texts s @ [product_text p],
                    s_product_keys := s_product_keys s @ [key]\<rparr>) prods s))
       = length (s_product_texts s) + length prods
   \<and> length (s_product_keys (fold (\<lambda>(key, p) s.
                  s\<lparr>s_product_texts := s_product_texts s @ [product_text p],
                    s_product_keys := s_product_keys s @ [key]\<rparr>) prods s))
       = length (s_product_keys s) + length prods"
  by (induction prods arbitrary: s) (simp_all add: case_prod_beta)

lemma prepare_fields:
  "s_embeddings (prepare_product_texts s) = s_embeddings s
   \<and> s_knowledge_base (prepare_product_texts s) = s_knowledge_base s
   \<and> model_name (prepare_product_texts s) = model_name s
   \<and> s_model (prepare_product_texts s) = s_model s"
  by (simp add: prepare_product_texts_def Let_def prepare_fold_fields split: option.splits)

lemma prepare_aligned:
  "length (s_product_keys s) = length (s_product_texts s) \<Longrightarrow>
   length (s_product_keys (prepare_product_texts s)) = length (s_product_texts (prepare_product_texts s))"
  by (simp add: prepare_product_texts_def Let_def prepare_fold_fields split: option.splits)

lemma build_embeddings_aligned:
  assumes "aligned s" and "one_vector_per_text env"
  shows "aligned (snd (build_embeddings env s))"
proof (cases "s_embeddings s")
  case (Some E)
  then show ?thesis using assms(1) by (simp add: build_embeddings_def)
next
  case None
  let ?p = "prepare_product_texts s"
  have len: "length (s_product_keys ?p) = length (s_product_texts ?p)"
    using assms(1) by (intro prepare_aligned) (simp add: aligned_iff)
  have emb: "s_embeddings ?p = None" using None prepare_fields by simp
  have al: "aligned ?p" using len emb by (simp add: aligned_iff)
  show ?thesis
  proof (cases "s_product_texts ?p = []")
    case True
    then show ?thesis using None al by (simp add: build_embeddings_def Let_def)
  next
    case False
    obtain r m where m: "model env ?p = (r, m)" by (cases "model env ?p")
    note mf = model_fields [OF m]
    have alm: "aligned m" using len emb mf by (simp add: aligned_iff)
    show ?thesis
      using None False m alm mf len assms(2)
      by (auto simp: build_embeddings_def Let_def try_except_st_def aligned_iff one_vector_per_text_def
               split: sum.splits)
  qed
qed

lemma build_embeddings_fields:
  "build_embeddings env s = (r, s') \<Longrightarrow>
     s_knowledge_base s' = s_knowledge_base s \<and> model_name s' = model_name s"
proof -
  assume b: "build_embeddings env s = (r, s')"
  obtain r0 m where m: "model env (prepare_product_texts s) = (r0, m)"
    by (cases "model env (prepare_product_texts s)")
  note mf = model_fields [OF m]
  show ?thesis
    using b m mf prepare_fields [of s]
    by (auto simp: build_embeddings_def Let_def try_except_st_def split: option.splits sum.splits if_splits)
qed

lemma find_similar_products_state:
  "\<exists>r m. snd (find_similar_products env s query top_k threshold) = m
     \<and> (m = snd (build_embeddings env s) \<or> model env (snd (build_embeddings env s)) = (r, m))"
proof -
  obtain rb sb where b: "build_embeddings env s = (rb, sb)" by (cases "build_embeddings env s")
  obtain rm sm where m: "model env sb = (rm, sm)" by (cases "model env sb")
  show ?thesis
    using b m
    by (auto simp: find_similar_products_def try_except_st_def Let_def
             split: sum.splits list.splits)
qed

lemma find_similar_products_aligned:
  assumes "aligned s" and "one_vector_per_text env"
  shows "aligned (snd (find_similar_products env s query top_k threshold))"
proof -
  have b: "aligned (snd (build_embeddings env s))" by (rule build_embeddings_aligned [OF assms])
  obtain r m where "snd (find_similar_products env s query top_k threshold) = m"
    and d: "m = snd (build_embeddings env s) \<or> model env (snd (build_embeddings env s)) = (r, m)"
    using find_similar_products_state by blast
  moreover have "aligned m"
    using d b model_fields [of env "snd (build_embeddings env s)" r m] by (auto simp: aligned_iff)
  ultimately show ?thesis by simp
qed

lemma set_knowledge_base_aligned: "aligned (set_knowledge_base s kb)"
  by (simp add: set_knowledge_base_def aligned_iff)

lemma do_call_aligned:
  "aligned s \<Longrightarrow> one_vector_per_text env \<Longrightarrow> aligned (do_call env c s)"
  by (cases c) (simp_all add: build_embeddings_aligned find_similar_products_aligned
                   set_knowledge_base_aligned)

lemma do_calls_aligned:
  "aligned s \<Longrightarrow> list_all (\<lambda>c. one_vector_per_text (fst c)) calls \<Longrightarrow> aligned (do_calls calls s)"
  by (induction calls arbitrary: s) (simp_all add: do_call_aligned)

lemma example_encoder: "one_vector_per_text example_env"
  by (simp add: one_vector_per_text_def example_env_def)

text \<open>
  Claim C9. After any sequence of \<open>set_knowledge_base\<close>,
      \<open>build_embeddings\<close> and
  \<open>find_similar_products\<close> calls on a new service, there are as many product keys as
  product texts and, once the embeddings exist, as many embedding vectors, provided the
  embedding model keeps its contract of one vector for each text. Replacing the knowledge
  base clears the keys, the texts and the embeddings.
\<close>

theorem embedding_index_aligned:
  "list_all (\<lambda>c. one_vector_per_text (fst c)) calls \<Longrightarrow>
     aligned (do_calls calls (semantic_init mname))
     \<and> s_product_keys (set_knowledge_base s kb) = []
     \<and> s_product_texts (set_knowledge_base s kb) = []
     \<and> s_embeddings (set_knowledge_base s kb) = None"
  using do_calls_aligned [of "semantic_init mname" calls]
  by (simp add: semantic_init_def aligned_iff set_knowledge_base_def)

theorem embedding_index_aligned_witness:
  "list_all (\<lambda>c. one_vector_per_text (fst c))
     [(example_env, Set_knowledge_base example_knowledge),
      (example_env, Find_similar_products (ascii ''loan'') 3 0.3),
      (example_env, Build_embeddings)]
   \<and> aligned (do_calls
         [(example_env, Set_knowledge_base example_knowledge),
          (example_env, Find_similar_products (ascii ''loan'') 3 0.3),
          (example_env, Build_embeddings)]
         (semantic_init (ascii ''MiniLM'')))"
proof -
  have h: "list_all (\<lambda>c. one_vector_per_text (fst c))
     [(example_env, Set_knowledge_base example_knowledge),
      (example_env, Find_similar_products (ascii ''loan'') 3 0.3),
      (example_env, Build_embeddings)]"
    by (simp add: example_encoder)
  from embedding_index_aligned [OF h, of "(ascii ''MiniLM'')"] h show ?thesis by simp
qed

subsection \<open>The results of a search\<close>

lemma similar_results_scores:
  "similar_results s sims t idxs acc = Inr rs \<Longrightarrow>
     map (\<lambda>r. snd (snd r)) rs =
       map (\<lambda>r. snd (snd r)) acc
           @ map (\<lambda>i. sims ! i) (filter (\<lambda>i. sims ! i > t) idxs)"
proof (induction idxs arbitrary: acc)
  case Nil
  then show ?case by simp
next
  case (Cons i idxs)
  show ?case
  proof (cases "sims ! i > t")
    case True
    with Cons.prems obtain p where
      "similar_results s sims t idxs (acc @ [(s_product_keys s ! i, p, sims ! i)]) = Inr rs"
      by (auto simp: Let_def split: if_splits option.splits)
    from Cons.IH [OF this] True show ?thesis by simp
  next
    case False
    with Cons.prems have "similar_results s sims t idxs acc = Inr rs"
      by (auto simp: Let_def split: if_splits)
    from Cons.IH [OF this] False show ?thesis by simp
  qed
qed

lemma argsort_descending:
  "sorted_wrt (\<lambda>i j. sims ! i \<ge> sims ! j) (rev (argsort sims))"
proof -
  have "sorted (map (\<lambda>i. sims ! i) (argsort sims))"
    by (simp add: argsort_def)
  then have "sorted_wrt (\<lambda>i j. sims ! i \<le> sims ! j) (argsort sims)"
    by (simp add: sorted_wrt_map)
  then show ?thesis by (simp add: sorted_wrt_rev)
qed

lemma slice_to_descending:
  "sorted_wrt P xs \<Longrightarrow> sorted_wrt P (py_slice_to xs k)"
  by (simp add: py_slice_to_def sorted_wrt_take)

lemma slice_to_length: "0 \<le> k \<Longrightarrow> int (length (py_slice_to xs k)) \<le> k"
  by (simp add: py_slice_to_def)

lemma similar_results_bounds:
  assumes "similar_results s sims t (py_slice_to (rev (argsort sims)) k) [] = Inr rs" and "0 \<le> k"
  shows "int (length rs) \<le> k \<and> list_all (\<lambda>r. snd (snd r) > t) rs
         \<and> sorted_wrt (\<lambda>a b. a \<ge> b) (map (\<lambda>r. snd (snd r)) rs)"
proof -
  let ?idxs = "py_slice_to (rev (argsort sims)) k"
  have sc: "map (\<lambda>r. snd (snd r)) rs = map (\<lambda>i. sims ! i) (filter (\<lambda>i. sims ! i > t) ?idxs)"
    using similar_results_scores [OF assms(1)] by simp
  have "length rs = length (map (\<lambda>r. snd (snd r)) rs)" by simp
  also have "\<dots> \<le> length ?idxs" unfolding sc by simp
  finally have len: "int (length rs) \<le> k" using slice_to_length [OF assms(2),
      of "rev (argsort sims)"] by linarith
  have "list_all (\<lambda>x. x > t) (map (\<lambda>r. snd (snd r)) rs)"
    unfolding sc by (simp add: list_all_iff)
  then have above: "list_all (\<lambda>r. snd (snd r) > t) rs"
    by (simp add: list_all_iff)
  have "sorted_wrt (\<lambda>i j. sims ! i \<ge> sims ! j) (filter (\<lambda>i. sims ! i > t) ?idxs)"
    by (intro sorted_wrt_filter slice_to_descending argsort_descending)
  then have "sorted_wrt (\<lambda>a b. a \<ge> b) (map (\<lambda>r. snd (snd r)) rs)"
    unfolding sc by (simp add: sorted_wrt_map)
  with len above show ?thesis by simp
qed

lemma find_similar_products_shape:
  "fst (find_similar_products env s query top_k threshold) = Inr []
   \<or> (\<exists>sm sims rs.
         similar_results sm sims threshold (py_slice_to (rev (argsort sims)) top_k) [] = Inr rs
         \<and> fst (find_similar_products env s query top_k threshold) = Inr rs)"
proof -
  obtain rb sb where b: "build_embeddings env s = (rb, sb)" by (cases "build_embeddings env s")
  obtain rm sm where m: "model env sb = (rm, sm)" by (cases "model env sb")
  show ?thesis
  proof (cases "similar_results sm (hd (projr (cosine_similarity env (projr (encode env [query])) (projr rb))))
                  threshold
                  (py_slice_to (rev (argsort (hd (projr (cosine_similarity env (projr (encode env [query])) (projr rb)))))) top_k) []")
    case (Inl e)
    then have "fst (find_similar_products env s query top_k threshold) = Inr []"
      using b m
      by (auto simp: find_similar_products_def try_except_st_def Let_def
               split: sum.splits list.splits)
    then show ?thesis by simp
  next
    case (Inr rs)
    then have "fst (find_similar_products env s query top_k threshold) = Inr []
               \<or> fst (find_similar_products env s query top_k threshold) = Inr rs"
      using b m
      by (auto simp: find_similar_products_def try_except_st_def Let_def
               split: sum.splits list.splits)
    then show ?thesis using Inr by blast
  qed
qed

text \<open>
  Claim C2, as amended. For every query,
      every \<open>top_k\<close> that is not negative and every
  threshold,
      \<open>find_similar_products\<close> returns a list of at most \<open>top_k\<close> triples, every score
  greater than the threshold, in descending order of score; equal scores may stand next
  to each other.
\<close>

theorem find_similar_products_bounds:
  "0 \<le> top_k \<Longrightarrow>
     \<exists>results. fst (find_similar_products env s query top_k threshold) = Inr results
       \<and> int (length results) \<le> top_k
       \<and> list_all (\<lambda>r. snd (snd r) > threshold) results
       \<and> sorted_wrt (\<lambda>a b. a \<ge> b) (map (\<lambda>r. snd (snd r)) results)"
proof -
  assume k: "0 \<le> top_k"
  from find_similar_products_shape [of env s query top_k threshold]
  show ?thesis
  proof (elim disjE exE conjE)
    assume "fst (find_similar_products env s query top_k threshold) = Inr []"
    then show ?thesis using k by simp
  next
    fix sm sims rs
    assume "similar_results sm sims threshold (py_slice_to (rev (argsort sims)) top_k) [] = Inr rs"
      and r: "fst (find_similar_products env s query top_k threshold) = Inr rs"
    from similar_results_bounds [OF this(1) k] r show ?thesis by simp
  qed
qed

theorem find_similar_products_bounds_witness:
  "(0::int) \<le> 2
   \<and> (\<exists>results.
         fst (find_similar_products example_env (semantic_service example_chatbot) (ascii ''loan'') 2 0.3)
           = Inr results
         \<and> int (length results) \<le> 2
         \<and> list_all (\<lambda>r. snd (snd r) > 0.3) results
         \<and> sorted_wrt (\<lambda>a b. a \<ge> b) (map (\<lambda>r. snd (snd r)) results))"
proof -
  have h: "(0::int) \<le> 2" by simp
  from find_similar_products_bounds [OF h,
      of example_env "semantic_service example_chatbot" "(ascii ''loan'')" "0.3"]
  show ?thesis by simp
qed

text \<open>The claim as stated fails on the example, where the three products are equally
  similar to the query. For \<open>top_k = 2\<close> the two results have equal scores,
      which is not
  strictly descending; for \<open>top_k = -1\<close> the slice \<open>[:-1]\<close> keeps two candidates, more
  than \<open>top_k\<close>.\<close>

theorem find_similar_products_counterexample:
  "fst (find_similar_products example_env (semantic_service example_chatbot) (ascii ''loan'') 2 0.3)
     = Inr [((ascii ''Start''),
             \<lparr>name = (ascii ''Start''), type = (ascii ''credit''),
                 category = (ascii ''Home''), description = [],
              raw_data = []\<rparr>,
             1 / 2),
            ((ascii ''Gold''),
             \<lparr>name = (ascii ''Gold''), type = (ascii ''credit''),
                 category = (ascii ''Home''), description = [0xA, 0x41, 0xA, 0x42],
              raw_data = [(product_information, [0xA, 0x41, 0xA, 0x42])]\<rparr>,
             1 / 2)]
   \<and> fst (find_similar_products example_env (semantic_service example_chatbot) (ascii ''loan'') (- 1) 0.3)
     = Inr [((ascii ''Start''),
             \<lparr>name = (ascii ''Start''), type = (ascii ''credit''),
                 category = (ascii ''Home''), description = [],
              raw_data = []\<rparr>,
             1 / 2),
            ((ascii ''Gold''),
             \<lparr>name = (ascii ''Gold''), type = (ascii ''credit''),
                 category = (ascii ''Home''), description = [0xA, 0x41, 0xA, 0x42],
              raw_data = [(product_information, [0xA, 0x41, 0xA, 0x42])]\<rparr>,
             1 / 2)]"
  by (simp add: find_similar_products_def try_except_st_def build_embeddings_def
        prepare_product_texts_def model_def example_chatbot_def set_knowledge_base_def
        semantic_init_def example_env_def example_products size_of_def argsort_def
        product_text_def text_eval upt_rec Let_def)

section \<open>One turn of the chatbot\<close>

subsection \<open>What the handlers return and change\<close>

lemma try_except_returns: "(\<And>e. \<exists>r. h e = Inr r) \<Longrightarrow> \<exists>r. try_except b h = Inr r"
  by (cases b) (auto simp: try_except_def)

lemma handle_credit_card_inquiry_returns: "\<exists>r. handle_credit_card_inquiry self u = Inr r"
  unfolding handle_credit_card_inquiry_def by (rule try_except_returns) simp

lemma handle_loan_inquiry_returns: "\<exists>r. handle_loan_inquiry self u = Inr r"
  unfolding handle_loan_inquiry_def by (rule try_except_returns) simp

lemma find_similar_products_fields:
  "s_knowledge_base (snd (find_similar_products env s query top_k threshold)) = s_knowledge_base s
   \<and> model_name (snd (find_similar_products env s query top_k threshold)) = model_name s"
proof -
  obtain r m where "snd (find_similar_products env s query top_k threshold) = m"
    and d: "m = snd (build_embeddings env s) \<or> model env (snd (build_embeddings env s)) = (r, m)"
    using find_similar_products_state by blast
  moreover have "s_knowledge_base m = s_knowledge_base s \<and> model_name m = model_name s"
    using d
      build_embeddings_fields [of env s "fst (build_embeddings env s)" "snd (build_embeddings env s)"]
      model_fields [of env "snd (build_embeddings env s)" r m]
    by auto
  ultimately show ?thesis by simp
qed

lemma find_similar_products_returns:
  "\<exists>r. fst (find_similar_products env s query top_k threshold) = Inr r"
  by (cases "build_embeddings env s")
     (auto simp: find_similar_products_def try_except_st_def split: sum.splits prod.splits)

lemma semantic_fallback_state:
  "\<exists>r. generate_semantic_fallback_response env self u =
         (Inr r, self\<lparr>semantic_service :=
                       snd (find_similar_products env (semantic_service self) u 5 0.3)\<rparr>)"
proof -
  obtain rf sf where f: "find_similar_products env (semantic_service self) u 5 0.3 = (rf, sf)"
    by (cases "find_similar_products env (semantic_service self) u 5 0.3")
  show ?thesis
    using f
    by (auto simp: generate_semantic_fallback_response_def try_except_st_def Let_def
             split: sum.splits)
qed

lemma semantic_fallback_frame:
  "\<exists>r s'. generate_semantic_fallback_response env self u = (Inr r,
      self\<lparr>semantic_service := s'\<rparr>)
     \<and> s_knowledge_base s' = s_knowledge_base (semantic_service self)
     \<and> model_name s' = model_name (semantic_service self)"
  using semantic_fallback_state [of env self u]
    find_similar_products_fields [of env "semantic_service self" u 5 "0.3"]
  by blast

lemma ai_unavailable:
  "\<not> is_available (gemini_service self) \<Longrightarrow>
     generate_ai_or_fallback_response env self u i c =
       generate_semantic_fallback_response env self u"
  using semantic_fallback_state [of env self u]
  by (auto simp: generate_ai_or_fallback_response_def try_except_st_def)

lemma ai_or_fallback_frame:
  "\<exists>r s'. generate_ai_or_fallback_response env self u i c = (Inr r,
      self\<lparr>semantic_service := s'\<rparr>)
     \<and> s_knowledge_base s' = s_knowledge_base (semantic_service self)
     \<and> model_name s' = model_name (semantic_service self)"
proof (cases "is_available (gemini_service self)")
  case False
  then show ?thesis
    using semantic_fallback_frame [of env self u] by (simp add: ai_unavailable)
next
  case True
  obtain rf sf where f: "find_similar_products env (semantic_service self) u 3 0.3 = (rf, sf)"
    by (cases "find_similar_products env (semantic_service self) u 3 0.3")
  have sf: "s_knowledge_base sf = s_knowledge_base (semantic_service self)
        \<and> model_name sf = model_name (semantic_service self)"
    using find_similar_products_fields [of env "semantic_service self" u 3 "0.3"] f by simp
  let ?self1 = "self\<lparr>semantic_service := sf\<rparr>"
  from semantic_fallback_frame [of env ?self1 u] obtain r2 s2 where
    fb: "generate_semantic_fallback_response env ?self1 u =
           (Inr r2, ?self1\<lparr>semantic_service := s2\<rparr>)"
    and s2: "s_knowledge_base s2 = s_knowledge_base sf" "model_name s2 = model_name sf"
    by auto
  obtain rr where rf: "rf = Inr rr"
    using find_similar_products_returns [of env "semantic_service self" u 3 "0.3"] f by auto
  show ?thesis
    using True f rf fb s2 sf
    by (auto simp: generate_ai_or_fallback_response_def try_except_st_def Let_def
             split: option.splits)
qed

subsection \<open>The turn\<close>

text \<open>The turn for an input that is not blank and whose language is detected: the
  language is stored, the intent is found and recorded, and the answer of the handler
  gets the footer.\<close>

lemma generate_response_try_dispatch:
  assumes "user_input \<noteq> []" and "py_strip user_input \<noteq> []"
    and "detect_language env user_input = Inr lang"
    and "found = find_intent env (self\<lparr>the_context := (the_context self)\<lparr>user_language := lang\<rparr>\<rparr>)
                   user_input"
    and "self2 = self\<lparr>the_context := (the_context self)
             \<lparr>user_language := lang,
              conversation_history := conversation_history (the_context self) @
                 [\<lparr>user = user_input, timestamp = now_isoformat env, language = lang,
                   intent = fst found, confidence = snd found\<rparr>]\<rparr>\<rparr>"
  shows "generate_response_try env self user_input =
      (case (if fst found = (ascii ''credit_cards'')
             then (handle_credit_card_inquiry self2 user_input, self2)
             else if fst found = (ascii ''loans'')
             then (handle_loan_inquiry self2 user_input, self2)
             else generate_ai_or_fallback_response env self2 user_input (fst found) (snd found)) of
         (Inl e, b) \<Rightarrow> (Inl e, b)
       | (Inr response, b) \<Rightarrow>
           (Inr (response @ contact_information (user_language (the_context b))), b))"
  using assms by (simp add: generate_response_try_def Let_def)

lemma generate_response_try_turn:
  assumes "user_input \<noteq> []" and "py_strip user_input \<noteq> []"
    and "detect_language env user_input = Inr lang"
  shows "\<exists>r hist s'. generate_response_try env self user_input =
           (Inr (r @ contact_information lang),
            self\<lparr>the_context := (the_context self)
                    \<lparr>user_language := lang, conversation_history := hist\<rparr>,
                 semantic_service := s'\<rparr>)
         \<and> s_knowledge_base s' = s_knowledge_base (semantic_service self)
         \<and> model_name s' = model_name (semantic_service self)"
proof -
  define found where
    "found = find_intent env (self\<lparr>the_context := (the_context self)\<lparr>user_language := lang\<rparr>\<rparr>)
               user_input"
  define hist where
    "hist = conversation_history (the_context self) @
                 [\<lparr>user = user_input, timestamp = now_isoformat env, language = lang,
                   intent = fst found, confidence = snd found\<rparr>]"
  define self2 where
    "self2 = self\<lparr>the_context := (the_context self)
                     \<lparr>user_language := lang,
                         conversation_history := hist\<rparr>\<rparr>"
  have self2': "self2 = self\<lparr>the_context := (the_context self)
             \<lparr>user_language := lang,
              conversation_history := conversation_history (the_context self) @
                 [\<lparr>user = user_input, timestamp = now_isoformat env, language = lang,
                   intent = fst found, confidence = snd found\<rparr>]\<rparr>\<rparr>"
    by (simp add: self2_def hist_def)
  note try_eq = generate_response_try_dispatch [OF assms found_def self2']
  have lang2: "user_language (the_context self2) = lang" by (simp add: self2_def)
  have sem2: "semantic_service self2 = semantic_service self" by (simp add: self2_def)
  have same: "self2 = self\<lparr>the_context := (the_context self)
                    \<lparr>user_language := lang, conversation_history := hist\<rparr>,
                 semantic_service := semantic_service self\<rparr>"
    by (simp add: self2_def)
  consider (cards) "fst found = (ascii ''credit_cards'')"
    | (loans) "fst found \<noteq> (ascii ''credit_cards'')" "fst found = (ascii ''loans'')"
    | (other) "fst found \<noteq> (ascii ''credit_cards'')" "fst found \<noteq> (ascii ''loans'')"
    by blast
  then show ?thesis
  proof cases
    case cards
    obtain r where "handle_credit_card_inquiry self2 user_input = Inr r"
      using handle_credit_card_inquiry_returns by blast
    then have "generate_response_try env self user_input =
                 (Inr (r @ contact_information lang), self2)"
      using cards lang2 by (simp add: try_eq)
    then show ?thesis
      using same by (intro exI [of _ r] exI [of _ hist] exI [of _ "semantic_service self"]) simp
  next
    case loans
    obtain r where "handle_loan_inquiry self2 user_input = Inr r"
      using handle_loan_inquiry_returns by blast
    then have "generate_response_try env self user_input =
                 (Inr (r @ contact_information lang), self2)"
      using loans lang2 by (simp add: try_eq)
    then show ?thesis
      using same by (intro exI [of _ r] exI [of _ hist] exI [of _ "semantic_service self"]) simp
  next
    case other
    from ai_or_fallback_frame [of env self2 user_input "fst found" "snd found"]
    obtain r s' where
      g: "generate_ai_or_fallback_response env self2 user_input (fst found) (snd found)
            = (Inr r, self2\<lparr>semantic_service := s'\<rparr>)"
      and s': "s_knowledge_base s' = s_knowledge_base (semantic_service self2)"
              "model_name s' = model_name (semantic_service self2)"
      by auto
    have "generate_response_try env self user_input =
            (Inr (r @ contact_information lang), self2\<lparr>semantic_service := s'\<rparr>)"
      using other g lang2 by (simp add: try_eq)
    then show ?thesis
      using s' sem2 by (intro exI [of _ r] exI [of _ hist] exI [of _ s']) (simp add: self2_def)
  qed
qed

lemma blank_turn:
  "user_input = [] \<or> py_strip user_input = [] \<Longrightarrow>
     generate_response_try env self user_input = (Inr enter_question, self)"
  by (auto simp: generate_response_try_def)

lemma failed_detection_turn:
  "user_input \<noteq> [] \<Longrightarrow> py_strip user_input \<noteq> [] \<Longrightarrow> detect_language env user_input = Inl e \<Longrightarrow>
     generate_response_try env self user_input = (Inl e, self)"
  by (simp add: generate_response_try_def)

lemma bulgarian_session: "user_language (the_context bulgarian_chatbot) = (ascii ''bg'')"
  by (simp add: bulgarian_chatbot_def)

lemma english_session: "user_language (the_context example_chatbot) \<noteq> (ascii ''bg'')"
  by (simp add: example_chatbot_def example_context_def ascii_def)

text \<open>
  Claim C1. For every input string \<open>generate_response\<close> returns a response string and raises
  nothing. Whenever the body of its \<open>try\<close> raises, the response is the generic error
  response in the language the conversation context has at that moment: the red
  Bulgarian sentence when that language is \<open>bg\<close>,
      the red English sentence otherwise.
\<close>

theorem generate_response_never_raises:
  "(\<exists>r. fst (generate_response env self user_input) = Inr r)
   \<and> (\<forall>e raised.
         generate_response_try env self user_input = (Inl e, raised) \<longrightarrow>
         generate_response env self user_input =
           (Inr (if user_language (the_context raised) = (ascii ''bg'')
                 then Fore_RED @ ([0x421, 0x44A, 0x436, 0x430, 0x43B, 0x44F, 0x432, 0x430,
                     0x43C] @ ascii '', '' @ [0x432, 0x44A, 0x437, 0x43D, 0x438, 0x43A, 0x43D,
                     0x430, 0x20, 0x433, 0x440, 0x435, 0x448, 0x43A, 0x430] @ ascii ''. ''
                     @ [0x41C, 0x43E, 0x43B, 0x44F] @ ascii '', '' @ [0x43E, 0x43F, 0x438,
                     0x442, 0x430, 0x439, 0x442, 0x435, 0x20, 0x43E, 0x442, 0x43D, 0x43E, 0x432,
                     0x43E, 0x2E]) @ Style_RESET_ALL
                 else Fore_RED @ (ascii ''Sorry, an error occurred. Please try again.'')
                     @ Style_RESET_ALL),
            raised))"
proof (cases "generate_response_try env self user_input")
  case (Pair a b)
  then show ?thesis
    by (cases a)
       (simp_all add: generate_response_def try_except_st_def generate_error_response_def)
qed

text \<open>A language detector that raises an exception of its own, in a session whose
  language is Bulgarian and in a new session, whose language is English.\<close>

theorem generate_response_never_raises_witness:
  "generate_response_try failing_env bulgarian_chatbot (ascii ''hi'') =
     (Inl OtherException, bulgarian_chatbot)
   \<and> generate_response failing_env bulgarian_chatbot (ascii ''hi'') =
       (Inr (Fore_RED @ ([0x421, 0x44A, 0x436, 0x430, 0x43B, 0x44F, 0x432, 0x430, 0x43C]
           @ ascii '', '' @ [0x432, 0x44A, 0x437, 0x43D, 0x438, 0x43A, 0x43D, 0x430, 0x20,
           0x433, 0x440, 0x435, 0x448, 0x43A, 0x430] @ ascii ''. '' @ [0x41C, 0x43E, 0x43B,
           0x44F] @ ascii '', '' @ [0x43E, 0x43F, 0x438, 0x442, 0x430, 0x439, 0x442, 0x435,
           0x20, 0x43E, 0x442, 0x43D, 0x43E, 0x432, 0x43E, 0x2E]) @ Style_RESET_ALL),
           bulgarian_chatbot)
   \<and> generate_response_try failing_env example_chatbot (ascii ''hi'') =
       (Inl OtherException, example_chatbot)
   \<and> generate_response failing_env example_chatbot (ascii ''hi'') =
       (Inr (Fore_RED @ (ascii ''Sorry, an error occurred. Please try again.'')
           @ Style_RESET_ALL), example_chatbot)"
proof -
  have b: "generate_response_try failing_env bulgarian_chatbot (ascii ''hi'') =
             (Inl OtherException, bulgarian_chatbot)"
    using hi_not_blank hi_language_fails by (simp add: failed_detection_turn)
  have e: "generate_response_try failing_env example_chatbot (ascii ''hi'') =
             (Inl OtherException, example_chatbot)"
    using hi_not_blank hi_language_fails by (simp add: failed_detection_turn)
  from generate_response_never_raises [of failing_env bulgarian_chatbot "(ascii ''hi'')"] b
  have "generate_response failing_env bulgarian_chatbot (ascii ''hi'') =
          (Inr (Fore_RED @ ([0x421, 0x44A, 0x436, 0x430, 0x43B, 0x44F, 0x432, 0x430, 0x43C]
              @ ascii '', '' @ [0x432, 0x44A, 0x437, 0x43D, 0x438, 0x43A, 0x43D, 0x430, 0x20,
              0x433, 0x440, 0x435, 0x448, 0x43A, 0x430] @ ascii ''. '' @ [0x41C, 0x43E, 0x43B,
              0x44F] @ ascii '', '' @ [0x43E, 0x43F, 0x438, 0x442, 0x430, 0x439, 0x442, 0x435,
              0x20, 0x43E, 0x442, 0x43D, 0x43E, 0x432, 0x43E, 0x2E]) @ Style_RESET_ALL),
              bulgarian_chatbot)"
    by (simp add: bulgarian_session)
  moreover from generate_response_never_raises [of failing_env example_chatbot "(ascii ''hi'')"] e
  have "generate_response failing_env example_chatbot (ascii ''hi'') =
          (Inr (Fore_RED @ (ascii ''Sorry, an error occurred. Please try again.'')
              @ Style_RESET_ALL), example_chatbot)"
    by (simp add: english_session)
  ultimately show ?thesis using b e by simp
qed

subsection \<open>Blank input\<close>

lemma blank_input_prompt:
  "user_input = [] \<or> py_strip user_input = [] \<Longrightarrow>
     generate_response env self user_input = (Inr enter_question, self)"
  by (simp add: generate_response_def try_except_st_def blank_turn)

text \<open>
  Claim C5. For a blank input (empty or whitespace only) \<open>generate_response\<close> returns a
  prompt to enter a question and appends no record to the conversation history; the
  prompt is to be in the language of the session. The code keeps the history, and the
  whole chatbot, as it was, but its prompt is one English sentence, returned without
  reading the language of the conversation context, by which the error response, the
  footer and the messages of the handlers are all chosen. In a session whose language
  is Bulgarian, the empty input and an input of spaces and a line feed are both
  answered with the English prompt.
\<close>

theorem generate_response_blank_bulgarian:
  "user_language (the_context bulgarian_chatbot) = (ascii ''bg'')
   \<and> generate_response example_env bulgarian_chatbot [] =
       (Inr (Fore_YELLOW @ ([0x1F4A1] @ ascii '' Please enter your question.'')
           @ Style_RESET_ALL),
        bulgarian_chatbot)
   \<and> generate_response example_env bulgarian_chatbot (ascii ''  '' @ [0xA]) =
       (Inr (Fore_YELLOW @ ([0x1F4A1] @ ascii '' Please enter your question.'')
           @ Style_RESET_ALL),
        bulgarian_chatbot)
   \<and> conversation_history (the_context (snd (generate_response example_env bulgarian_chatbot [])))
       = conversation_history (the_context bulgarian_chatbot)"
proof -
  have h: "(ascii ''  '' @ [0xA]) = ([]::ustring) \<or> py_strip (ascii ''  ''
      @ [0xA]) = []" by (simp add: text_eval)
  show ?thesis
    using blank_input_prompt [OF h, of example_env bulgarian_chatbot]
      blank_input_prompt [of "[]" example_env bulgarian_chatbot]
    by (simp add: enter_question_def bulgarian_session)
qed

subsection \<open>The footer\<close>

lemma endswith_append: "py_endswith (r @ p) p"
  by (simp add: py_endswith_def)

lemma footer_has_number: "py_in (ascii ''*2265'') (contact_information lang)"
  by (simp add: contact_information_def Fore_CYAN_def Style_RESET_ALL_def ascii_def
        py_startswith_def)

text \<open>
  Claim C6, as amended. For every input that is not blank, in a turn whose language
  detection does not raise,
      the response of \<open>generate_response\<close> ends with the contact
  footer of the detected language,
      and that footer contains \<open>*2265\<close>. (The prompt for a
  blank input and the generic error response carry no footer.)
\<close>

theorem generate_response_footer:
  "user_input \<noteq> [] \<Longrightarrow> py_strip user_input \<noteq> [] \<Longrightarrow>
   detect_language env user_input = Inr lang \<Longrightarrow>
     \<exists>r. fst (generate_response env self user_input) = Inr r
       \<and> py_endswith r (contact_information lang)
       \<and> py_in (ascii ''*2265'') (contact_information lang)"
proof -
  assume a: "user_input \<noteq> []" "py_strip user_input \<noteq> []"
    "detect_language env user_input = Inr lang"
  from generate_response_try_turn [OF a, of self] obtain r b where
    "generate_response_try env self user_input = (Inr (r @ contact_information lang), b)"
    by blast
  then have "fst (generate_response env self user_input) = Inr (r @ contact_information lang)"
    by (simp add: generate_response_def try_except_st_def)
  then show ?thesis
    using endswith_append footer_has_number by blast
qed

theorem generate_response_footer_witness:
  "(ascii ''hi'') \<noteq> ([]::ustring) \<and> py_strip (ascii ''hi'') \<noteq> [] \<and> detect_language example_env (ascii ''hi'') = Inr (ascii ''en'')
   \<and> (\<exists>r. fst (generate_response example_env example_chatbot (ascii ''hi'')) = Inr r
         \<and> py_endswith r (contact_information (ascii ''en''))
         \<and> py_in (ascii ''*2265'') (contact_information (ascii ''en'')))"
  using generate_response_footer [of "(ascii ''hi'')" example_env "(ascii ''en'')" example_chatbot]
    hi_not_blank hi_language
  by simp

text \<open>The claim as stated fails on the empty input: the response is the prompt, which
  ends with neither footer.\<close>

theorem generate_response_footer_counterexample:
  "fst (generate_response example_env example_chatbot []) = Inr enter_question
   \<and> \<not> py_endswith enter_question (contact_information (ascii ''en''))
   \<and> \<not> py_endswith enter_question (contact_information (ascii ''bg''))"
  by (simp add: generate_response_def generate_response_try_def try_except_st_def
        enter_question_def contact_information_def py_endswith_def colour_eval ascii_def)

subsection \<open>What a turn leaves unchanged\<close>

text \<open>
  Claim C10,
      as amended. Every call of \<open>generate_response\<close> leaves the knowledge base, the
  intent patterns, the keyword configuration and the Gemini service unchanged. What it
  may change is the language and the history of the conversation context and, in the
  semantic service, the lazily built index (model, product texts, product keys,
  embeddings); the knowledge base and the model name of the semantic service stay.
\<close>

theorem generate_response_frame:
  "\<exists>lang hist s'.
     snd (generate_response env self user_input) =
       self\<lparr>the_context := (the_context self)
               \<lparr>user_language := lang, conversation_history := hist\<rparr>,
            semantic_service := s'\<rparr>
     \<and> s_knowledge_base s' = s_knowledge_base (semantic_service self)
     \<and> model_name s' = model_name (semantic_service self)"
proof -
  have same: "self = self\<lparr>the_context := (the_context self)
               \<lparr>user_language := user_language (the_context self),
                conversation_history := conversation_history (the_context self)\<rparr>,
            semantic_service := semantic_service self\<rparr>"
    by simp
  consider (blank) "user_input = [] \<or> py_strip user_input = []"
    | (failed) e where "user_input \<noteq> []" "py_strip user_input \<noteq> []"
        "detect_language env user_input = Inl e"
    | (turn) lang where "user_input \<noteq> []" "py_strip user_input \<noteq> []"
        "detect_language env user_input = Inr lang"
    by (cases "detect_language env user_input") auto
  then show ?thesis
  proof cases
    case blank
    then have "snd (generate_response env self user_input) = self"
      by (simp add: generate_response_def try_except_st_def blank_turn)
    then show ?thesis
      using same
      by (intro exI [of _ "user_language (the_context self)"]
                exI [of _ "conversation_history (the_context self)"]
                exI [of _ "semantic_service self"]) simp
  next
    case failed
    then have "snd (generate_response env self user_input) = self"
      by (simp add: generate_response_def try_except_st_def failed_detection_turn)
    then show ?thesis
      using same
      by (intro exI [of _ "user_language (the_context self)"]
                exI [of _ "conversation_history (the_context self)"]
                exI [of _ "semantic_service self"]) simp
  next
    case turn
    from generate_response_try_turn [OF turn, of self] obtain r hist s' where
      t: "generate_response_try env self user_input =
           (Inr (r @ contact_information lang),
            self\<lparr>the_context := (the_context self)
                    \<lparr>user_language := lang, conversation_history := hist\<rparr>,
                 semantic_service := s'\<rparr>)"
      and s': "s_knowledge_base s' = s_knowledge_base (semantic_service self)"
              "model_name s' = model_name (semantic_service self)"
      by blast
    from t have "snd (generate_response env self user_input) =
            self\<lparr>the_context := (the_context self)
                    \<lparr>user_language := lang, conversation_history := hist\<rparr>,
                 semantic_service := s'\<rparr>"
      by (simp add: generate_response_def try_except_st_def)
    with s' show ?thesis by blast
  qed
qed

theorem generate_response_frame_witness:
  "knowledge_base (snd (generate_response example_env example_chatbot (ascii ''hi''))) = example_knowledge
   \<and> the_keywords (snd (generate_response example_env example_chatbot (ascii ''hi''))) =
       the_keywords example_chatbot
   \<and> intent_patterns (snd (generate_response example_env example_chatbot (ascii ''hi''))) =
       intent_patterns example_chatbot
   \<and> s_knowledge_base (semantic_service (snd (generate_response example_env example_chatbot (ascii ''hi'')))) =
       Some example_knowledge"
proof -
  from generate_response_frame [of example_env example_chatbot "(ascii ''hi'')"] obtain lang hist s' where
    "snd (generate_response example_env example_chatbot (ascii ''hi'')) =
       example_chatbot\<lparr>the_context := (the_context example_chatbot)
               \<lparr>user_language := lang, conversation_history := hist\<rparr>,
            semantic_service := s'\<rparr>"
    and "s_knowledge_base s' = s_knowledge_base (semantic_service example_chatbot)"
    by blast
  then show ?thesis
    by (simp add: example_chatbot_def set_knowledge_base_def)
qed

text \<open>The first general question builds the index: the claim as stated, that the
  conversation context is all a turn changes, fails on the example, whose semantic
  service has no product keys before the turn and three after it.\<close>

lemma general_turn_index:
  assumes "user_input \<noteq> []" and "py_strip user_input \<noteq> []"
    and "detect_language env user_input = Inr lang"
    and "fst (find_intent env (self\<lparr>the_context := (the_context self)\<lparr>user_language := lang\<rparr>\<rparr>)
                user_input) = (ascii ''general'')"
    and "\<not> is_available (gemini_service self)"
  shows "semantic_service (snd (generate_response env self user_input)) =
           snd (find_similar_products env (semantic_service self) user_input 5 0.3)"
proof -
  define found where
    "found = find_intent env (self\<lparr>the_context := (the_context self)\<lparr>user_language := lang\<rparr>\<rparr>)
               user_input"
  define self2 where "self2 = self\<lparr>the_context := (the_context self)
             \<lparr>user_language := lang,
              conversation_history := conversation_history (the_context self) @
                 [\<lparr>user = user_input, timestamp = now_isoformat env, language = lang,
                   intent = fst found, confidence = snd found\<rparr>]\<rparr>\<rparr>"
  note try_eq = generate_response_try_dispatch [OF assms(1-3) found_def self2_def]
  have g: "fst found = (ascii ''general'')" using assms(4) by (simp add: found_def)
  have ne: "(ascii ''general'') \<noteq> (ascii ''credit_cards'')" "(ascii ''general'') \<noteq> (ascii ''loans'')" by (simp_all add: ascii_def)
  have av: "\<not> is_available (gemini_service self2)" using assms(5) by (simp add: self2_def)
  have sem: "semantic_service self2 = semantic_service self" by (simp add: self2_def)
  from semantic_fallback_state [of env self2 user_input] obtain r where
    "generate_semantic_fallback_response env self2 user_input =
       (Inr r, self2\<lparr>semantic_service :=
                       snd (find_similar_products env (semantic_service self2) user_input 5 0.3)\<rparr>)"
    by blast
  then have "generate_response_try env self user_input =
      (Inr (r @ contact_information lang),
       self2\<lparr>semantic_service :=
                snd (find_similar_products env (semantic_service self2) user_input 5 0.3)\<rparr>)"
    using g ne av by (simp add: try_eq ai_unavailable self2_def)
  then show ?thesis
    using sem by (simp add: generate_response_def try_except_st_def)
qed

lemma hi_index:
  "s_product_keys (snd (find_similar_products example_env
       (set_knowledge_base (semantic_init (ascii ''MiniLM'')) example_knowledge) (ascii ''hi'') 5 0.3))
     = [(ascii ''Visa Classic''), (ascii ''Gold''), (ascii ''Start'')]"
  by (simp add: find_similar_products_def try_except_st_def build_embeddings_def
        prepare_product_texts_def model_def set_knowledge_base_def semantic_init_def
        example_env_def example_products size_of_def argsort_def text_eval upt_rec Let_def)

theorem generate_response_frame_counterexample:
  "s_product_keys (semantic_service example_chatbot) = []
   \<and> s_product_keys (semantic_service (snd (generate_response example_env example_chatbot (ascii ''hi''))))
       = [(ascii ''Visa Classic''), (ascii ''Gold''), (ascii ''Start'')]"
proof -
  have a: "\<not> is_available (gemini_service example_chatbot)"
    and s: "semantic_service example_chatbot =
              set_knowledge_base (semantic_init (ascii ''MiniLM'')) example_knowledge"
    by (simp_all add: example_chatbot_def)
  have i: "fst (find_intent example_env
                  (example_chatbot\<lparr>the_context := (the_context example_chatbot)\<lparr>user_language := (ascii ''en'')\<rparr>\<rparr>)
                  (ascii ''hi'')) = (ascii ''general'')"
    by (simp add: hi_intent)
  have "semantic_service (snd (generate_response example_env example_chatbot (ascii ''hi''))) =
          snd (find_similar_products example_env (semantic_service example_chatbot) (ascii ''hi'') 5 0.3)"
    using hi_not_blank hi_language i a by (intro general_turn_index) simp_all
  then show ?thesis
    using hi_index by (simp add: s) (simp add: set_knowledge_base_def semantic_init_def)
qed

end
